theory Spec2Isabelle
  imports Complex_Main "HOL-Library.Char_ord" "HOL-Library.List_Lexorder"
begin

section \<open>JavaScript values and string helpers used by the pages\<close>

text \<open>
  The application is a set of React pages that read and write a remote record store.
  Each handler is embedded as a function from the component state and the tables it
  touches to the tables after the call.  Strings are \<open>char list\<close>.  A stored amount
  (a \<open>number\<close> read back from a \<open>numeric(10,2)\<close> column or a form field) is
  carried as the rational it denotes.  Where a claim rests on sums of such amounts, in
  the balances report, the additions and subtractions of the source are parameters of the
  model, as the other built-ins are, so nothing is assumed about their rounding.
  Numbers produced by \<open>parseFloat\<close> on spreadsheet cells can be \<open>NaN\<close>,
  which the bank import model keeps.  Dates are the ISO strings \<open>YYYY-MM-DD\<close> of the
  source; the store's date comparison is the lexicographic order on these strings.
  Every store call whose \<open>error\<close> the source checks takes a flag saying whether the
  store rejected it.  A select whose \<open>data\<close> the source uses without reading the
  error takes its result as an input: the rows, or nothing when the select failed.
  Inserts into the ledger, whose result the source ignores, are taken to succeed.
\<close>

type_synonym uuid = string

datatype jsnum = NaN | Fin rat

text \<open>Comparisons with \<open>NaN\<close> are false; \<open>Math.abs\<close> and unary minus keep \<open>NaN\<close>.\<close>

fun js_ge0 :: "jsnum \<Rightarrow> bool" where
  "js_ge0 NaN = False"
| "js_ge0 (Fin q) = (q \<ge> 0)"

fun js_lt0 :: "jsnum \<Rightarrow> bool" where
  "js_lt0 NaN = False"
| "js_lt0 (Fin q) = (q < 0)"

fun js_abs :: "jsnum \<Rightarrow> jsnum" where
  "js_abs NaN = NaN"
| "js_abs (Fin q) = Fin \<bar>q\<bar>"

fun js_neg :: "jsnum \<Rightarrow> jsnum" where
  "js_neg NaN = NaN"
| "js_neg (Fin q) = Fin (- q)"

text \<open>
  A spreadsheet cell as \<open>XLSX.utils.sheet_to_json\<close> hands it over (type \<open>any\<close>):
  absent, a string, or a number.
\<close>

datatype cell = Undefined | Text string | Number jsnum

text \<open>JavaScript truthiness, as used by \<open>x || default\<close>.\<close>

fun truthy :: "cell \<Rightarrow> bool" where
  "truthy Undefined = False"
| "truthy (Text s) = (s \<noteq> [])"
| "truthy (Number NaN) = False"
| "truthy (Number (Fin q)) = (q \<noteq> 0)"

definition or_else :: "cell \<Rightarrow> cell \<Rightarrow> cell" where
  "or_else c d = (if truthy c then c else d)"

text \<open>
  \<open>String(x)\<close> and template interpolation.  The rendering of a number is the
  built-in \<open>Number::toString\<close>, taken as the parameter \<open>numToString\<close>.
\<close>

fun js_String :: "(jsnum \<Rightarrow> string) \<Rightarrow> cell \<Rightarrow> string" where
  "js_String numToString Undefined = ''undefined''"
| "js_String numToString (Text s) = s"
| "js_String numToString (Number n) = numToString n"

text \<open>\<open>s.includes(t)\<close>: \<open>t\<close> occurs in \<open>s\<close> as a contiguous substring.\<close>

fun starts_with :: "string \<Rightarrow> string \<Rightarrow> bool" where
  "starts_with s [] = True"
| "starts_with [] (t # ts) = False"
| "starts_with (c # cs) (t # ts) = (c = t \<and> starts_with cs ts)"

fun str_includes :: "string \<Rightarrow> string \<Rightarrow> bool" where
  "str_includes [] t = (t = [])"
| "str_includes (c # cs) t = (starts_with (c # cs) t \<or> str_includes cs t)"

text \<open>\<open>s.split(c)\<close> for a one-character separator; the empty string gives one empty segment.\<close>

fun split_on :: "char \<Rightarrow> string \<Rightarrow> string list" where
  "split_on c [] = [[]]"
| "split_on c (x # xs) =
     (if x = c then [] # split_on c xs
      else (case split_on c xs of [] \<Rightarrow> [[x]] | p # ps \<Rightarrow> (x # p) # ps))"

text \<open>\<open>s.split(/[- ]/)[0]\<close>: the text before the first hyphen or space.\<close>

definition before_dash_or_space :: "string \<Rightarrow> string" where
  "before_dash_or_space s = takeWhile (\<lambda>c. c \<noteq> CHR ''-'' \<and> c \<noteq> CHR '' '') s"

text \<open>\<open>s.padStart(2, '0')\<close>.\<close>

definition padStart2 :: "string \<Rightarrow> string" where
  "padStart2 s = replicate (2 - length s) CHR ''0'' @ s"

text \<open>
  \<open>s.toLowerCase()\<close> on the ASCII letters; every other character is kept.  The bank
  import uses it only to look for \<open>out\<close> in the lowered direction, and no letter
  outside ASCII lowers to \<open>o\<close>, \<open>u\<close> or \<open>t\<close>.
\<close>

definition lower_char :: "char \<Rightarrow> char" where
  "lower_char c =
     (case map_of (zip ''ABCDEFGHIJKLMNOPQRSTUVWXYZ'' ''abcdefghijklmnopqrstuvwxyz'') c of
        None \<Rightarrow> c | Some l \<Rightarrow> l)"

definition toLowerCase :: "string \<Rightarrow> string" where
  "toLowerCase s = map lower_char s"

text \<open>\<open>s.replace(/[^a-zA-Z0-9]/g, '')\<close>.\<close>

definition alnum :: "char \<Rightarrow> bool" where
  "alnum c = (c \<in> set ''abcdefghijklmnopqrstuvwxyzABCDEFGHIJKLMNOPQRSTUVWXYZ0123456789'')"

definition strip_non_alnum :: "string \<Rightarrow> string" where
  "strip_non_alnum s = filter alnum s"

section \<open>Bank import: one spreadsheet row to one transaction\<close>

text \<open>
  \<open>BankImport.handleImport\<close>, the date block of the row callback:
  \<^verbatim>\<open>
  let txnDate = row[columnMapping.txn_date];
  if (typeof txnDate === 'string' && txnDate.includes('/')) {
    const datePart = txnDate.split(/[- ]/)[0];
    const parts = datePart.split('/');
    if (parts.length === 3) {
      const [day, month, year] = parts;
      if (day.length <= 2 && month.length <= 2 && year.length === 4) {
        txnDate = `${year}-${month.padStart(2, '0')}-${day.padStart(2, '0')}`;
      }
    }
  }
  \<close>
\<close>

definition normalize_date_string :: "string \<Rightarrow> string" where
  "normalize_date_string txnDate =
     (if str_includes txnDate ''/'' then
        (case split_on CHR ''/'' (before_dash_or_space txnDate) of
           [day, month, year] \<Rightarrow>
             (if length day \<le> 2 \<and> length month \<le> 2 \<and> length year = 4
              then year @ ''-'' @ padStart2 month @ ''-'' @ padStart2 day
              else txnDate)
         | _ \<Rightarrow> txnDate)
      else txnDate)"

fun normalize_date :: "cell \<Rightarrow> cell" where
  "normalize_date (Text s) = Text (normalize_date_string s)"
| "normalize_date c = c"


text \<open>
  The two built-ins the import relies on: \<open>parseFloat\<close> on a string and
  \<open>Number::toString\<close>.  They are parameters of the model.
\<close>

record builtins =
  parseFloat :: "string \<Rightarrow> jsnum"
  numToString :: "jsnum \<Rightarrow> string"

record ColumnMapping =
  cm_txn_date :: string
  cm_description :: string
  cm_amount :: string
  cm_direction :: string
  cm_counterparty :: string
  cm_reference :: string

text \<open>A parsed row maps a header name to its cell; a missing key reads as \<open>undefined\<close>.\<close>

type_synonym ParsedRow = "string \<Rightarrow> cell"

record BankTransaction =
  bt_txn_date :: cell
  bt_description :: cell
  bt_amount :: jsnum
  bt_direction :: string
  bt_counterparty :: string
  bt_reference :: string
  bt_import_hash :: string
  bt_import_filename :: string

text \<open>
  \<open>parseFloat(String(c || 0))\<close>.  For a number cell the round trip through
  \<open>String\<close> and \<open>parseFloat\<close> gives the number back, so only a text cell
  reaches the parser; a falsy cell (absent, empty, zero, \<open>NaN\<close>) reads as \<open>0\<close>.
\<close>

definition raw_amount :: "builtins \<Rightarrow> cell \<Rightarrow> jsnum" where
  "raw_amount B c =
     (case or_else c (Number (Fin 0)) of
        Number n \<Rightarrow> n
      | Text s \<Rightarrow> parseFloat B s
      | Undefined \<Rightarrow> NaN)"

text \<open>
  The row callback of \<open>BankImport.handleImport\<close>:
  \<^verbatim>\<open>
  const description = row[columnMapping.description] || '';
  const amount = parseFloat(String(row[columnMapping.amount] || 0));
  const direction = columnMapping.direction
    ? String(row[columnMapping.direction] || 'in') : (amount >= 0 ? 'in' : 'out');
  const counterparty = columnMapping.counterparty
    ? String(row[columnMapping.counterparty] || '') : '';
  const reference = columnMapping.reference
    ? String(row[columnMapping.reference] || '') : '';
  const hash = `${txnDate}-${description}-${amount}`.replace(/[^a-zA-Z0-9]/g, '');
  return { txn_date: txnDate, description, amount: Math.abs(amount),
    direction: direction.toLowerCase().includes('out') || amount < 0 ? 'out' : 'in',
    counterparty, reference, import_hash: hash, import_filename: file?.name || '' };
  \<close>
\<close>

definition row_direction :: "builtins \<Rightarrow> ColumnMapping \<Rightarrow> ParsedRow \<Rightarrow> jsnum \<Rightarrow> string" where
  "row_direction B cm row amount =
     (if cm_direction cm \<noteq> []
      then js_String (numToString B) (or_else (row (cm_direction cm)) (Text ''in''))
      else if js_ge0 amount then ''in'' else ''out'')"

definition import_hash :: "builtins \<Rightarrow> cell \<Rightarrow> cell \<Rightarrow> jsnum \<Rightarrow> string" where
  "import_hash B txnDate description amount =
     strip_non_alnum (js_String (numToString B) txnDate @ ''-''
        @ js_String (numToString B) description @ ''-'' @ numToString B amount)"

definition to_transaction ::
  "builtins \<Rightarrow> string \<Rightarrow> ColumnMapping \<Rightarrow> ParsedRow \<Rightarrow> BankTransaction" where
  "to_transaction B file_name cm row =
     (let txnDate = normalize_date (row (cm_txn_date cm));
          description = or_else (row (cm_description cm)) (Text []);
          amount = raw_amount B (row (cm_amount cm));
          direction = row_direction B cm row amount;
          counterparty = (if cm_counterparty cm \<noteq> []
             then js_String (numToString B) (or_else (row (cm_counterparty cm)) (Text []))
             else []);
          reference = (if cm_reference cm \<noteq> []
             then js_String (numToString B) (or_else (row (cm_reference cm)) (Text []))
             else []);
          hash = import_hash B txnDate description amount
      in \<lparr> bt_txn_date = txnDate, bt_description = description, bt_amount = js_abs amount,
           bt_direction =
             (if str_includes (toLowerCase direction) ''out'' \<or> js_lt0 amount
              then ''out'' else ''in''),
           bt_counterparty = counterparty, bt_reference = reference,
           bt_import_hash = hash, bt_import_filename = file_name \<rparr>)"

section \<open>The record store\<close>

record LedgerEntry =
  le_txn_date :: cell
  le_txn_type :: string
  le_amount :: jsnum
  le_member_id :: "uuid option"
  le_project :: string
  le_category :: string
  le_description :: cell
  le_source :: string
  le_reference_type :: string
  le_reference_id :: "uuid option"

record Member =
  m_id :: uuid
  m_full_name :: string
  m_team :: string
  m_join_date :: string
  m_leave_date :: "string option"
  m_notes :: string

record Product =
  p_id :: uuid
  p_name :: string
  p_category :: string
  p_unit_price :: rat
  p_stock_quantity :: int

record SalesOrder =
  so_id :: uuid
  so_member_id :: "uuid option"
  so_order_date :: string
  so_payment_method :: string
  so_payment_status :: string
  so_total_amount :: rat

record SalesOrderItem =
  soi_order_id :: uuid
  soi_product_id :: uuid
  soi_product_name :: string
  soi_quantity :: int
  soi_unit_price :: rat
  soi_line_total :: rat

record CashExpense =
  ce_id :: uuid
  ce_expense_date :: string
  ce_amount :: rat
  ce_description :: string
  ce_category :: string
  ce_project :: string
  ce_vendor :: string

record ReimbursementRow =
  rb_id :: uuid
  rb_member_id :: uuid
  rb_purchase_date :: string
  rb_vendor :: string
  rb_description :: string
  rb_amount :: rat
  rb_category :: string
  rb_project :: string
  rb_payment_status :: string
  rb_payment_date :: "string option"
  rb_payment_method :: "string option"

text \<open>The page state joins the member's name to each row (\<open>member_name\<close>).\<close>

record Reimbursement = ReimbursementRow +
  rb_member_name :: string

record MembershipFeeRow =
  fee_id :: uuid
  fee_member_id :: uuid
  fee_month :: string
  fee_amount :: rat
  fee_payment_status :: string
  fee_payment_method :: "string option"
  fee_payment_date :: "string option"

record MembershipFee = MembershipFeeRow +
  fee_member_name :: string

record db =
  members :: "Member list"
  products :: "Product list"
  sales_orders :: "SalesOrder list"
  sales_order_items :: "SalesOrderItem list"
  bank_transactions :: "BankTransaction list"
  cash_expenses :: "CashExpense list"
  reimbursements :: "ReimbursementRow list"
  membership_fees :: "MembershipFeeRow list"
  transactions_ledger :: "LedgerEntry list"

text \<open>What a handler shows the user when it stops or finishes.\<close>

datatype alert =
    NoAlert
  | NoNewTransactions | ErrorImportingTransactions | ImportedTransactions nat
  | NoActiveMembers | ErrorGeneratingFees | GeneratedFees nat
  | ErrorUpdatingPayment
  | PleaseAddItem | ErrorCreatingSale
  | ErrorAddingExpense
  | NoNewMembers | ErrorImportingMembers | ImportedMembers nat


section \<open>Bank import: the import run\<close>

text \<open>
  \<open>BankImport.handleImport\<close> after the row callback: the stored hashes among those of
  the upload are read, rows with a stored hash are dropped, the rest is inserted in one
  batch and one ledger entry is posted for each inserted row.  The error of the lookup
  is never read: when the lookup fails its \<open>data\<close> is \<open>null\<close> and the set of
  stored hashes is empty, so every row counts as new.
  \<^verbatim>\<open>
  const { data: existingHashes } = await supabase.from('bank_transactions')
    .select('import_hash').in('import_hash', transactionsToImport.map(t => t.import_hash));
  const existingHashSet = new Set(existingHashes?.map(t => t.import_hash) || []);
  const newTransactions =
    transactionsToImport.filter(t => !existingHashSet.has(t.import_hash));
  ...
  for (const txn of newTransactions) {
    await supabase.from('transactions_ledger').insert({
      txn_date: txn.txn_date, txn_type: 'bank_transaction',
      amount: txn.direction === 'in' ? txn.amount : -txn.amount,
      project: 'General', category: 'bank', description: txn.description,
      source: 'bank', reference_type: 'bank_transaction' });
  }
  \<close>
\<close>

definition bank_ledger_entry :: "BankTransaction \<Rightarrow> LedgerEntry" where
  "bank_ledger_entry txn =
     \<lparr> le_txn_date = bt_txn_date txn, le_txn_type = ''bank_transaction'',
       le_amount = (if bt_direction txn = ''in'' then bt_amount txn else js_neg (bt_amount txn)),
       le_member_id = None, le_project = ''General'', le_category = ''bank'',
       le_description = bt_description txn, le_source = ''bank'',
       le_reference_type = ''bank_transaction'', le_reference_id = None \<rparr>"

definition existing_hashes ::
  "bool \<Rightarrow> BankTransaction list \<Rightarrow> BankTransaction list \<Rightarrow> string list" where
  "existing_hashes lookup_failed stored transactionsToImport =
     (if lookup_failed then []
      else map bt_import_hash
        (filter (\<lambda>t. bt_import_hash t \<in> set (map bt_import_hash transactionsToImport))
           stored))"

definition new_transactions ::
  "bool \<Rightarrow> BankTransaction list \<Rightarrow> BankTransaction list \<Rightarrow> BankTransaction list" where
  "new_transactions lookup_failed stored transactionsToImport =
     filter (\<lambda>t. bt_import_hash t
                  \<notin> set (existing_hashes lookup_failed stored transactionsToImport))
       transactionsToImport"

definition BankImport_handleImport ::
  "builtins \<Rightarrow> string \<Rightarrow> ColumnMapping \<Rightarrow> ParsedRow list \<Rightarrow> bool \<Rightarrow> bool \<Rightarrow> db
     \<Rightarrow> alert \<times> db" where
  "BankImport_handleImport B file_name cm parsedData lookup_failed insert_rejected d =
     (let transactionsToImport = map (to_transaction B file_name cm) parsedData;
          newTransactions =
            new_transactions lookup_failed (bank_transactions d) transactionsToImport
      in if newTransactions = [] then (NoNewTransactions, d)
         else if insert_rejected then (ErrorImportingTransactions, d)
         else (ImportedTransactions (length newTransactions),
               d\<lparr> bank_transactions := bank_transactions d @ newTransactions,
                  transactions_ledger :=
                    transactions_ledger d @ map bank_ledger_entry newTransactions \<rparr>))"

section \<open>Membership fees\<close>

record FeeInsert =
  fi_member_id :: uuid
  fi_fee_month :: string
  fi_amount :: rat
  fi_payment_status :: string

text \<open>
  \<open>upsert(rows, { onConflict: 'member_id,fee_month', ignoreDuplicates: true })\<close> on a
  table with \<open>UNIQUE(member_id, fee_month)\<close>: a row whose pair is already there is
  skipped, any other row is appended with the column defaults and a generated id.
\<close>

definition fee_conflict :: "MembershipFeeRow list \<Rightarrow> FeeInsert \<Rightarrow> bool" where
  "fee_conflict tbl r =
     list_ex (\<lambda>f. fee_member_id f = fi_member_id r \<and> fee_month f = fi_fee_month r) tbl"

definition fee_row :: "uuid \<Rightarrow> FeeInsert \<Rightarrow> MembershipFeeRow" where
  "fee_row new_id r =
     \<lparr> fee_id = new_id, fee_member_id = fi_member_id r, fee_month = fi_fee_month r,
       fee_amount = fi_amount r, fee_payment_status = fi_payment_status r,
       fee_payment_method = None, fee_payment_date = None \<rparr>"

fun upsert_ignore_duplicates ::
  "(nat \<Rightarrow> uuid) \<Rightarrow> MembershipFeeRow list \<Rightarrow> FeeInsert list \<Rightarrow> MembershipFeeRow list" where
  "upsert_ignore_duplicates new_ids tbl [] = tbl"
| "upsert_ignore_duplicates new_ids tbl (r # rs) =
     (if fee_conflict tbl r then upsert_ignore_duplicates new_ids tbl rs
      else upsert_ignore_duplicates new_ids (tbl @ [fee_row (new_ids (length tbl)) r]) rs)"

text \<open>
  \<open>MembershipFees.handleGenerateFees\<close>.  \<open>selectedMonth\<close> is the \<open>YYYY-MM\<close> string
  of the month picker; \<open>new Date(`${selectedMonth}-01`).toISOString().split('T')[0]\<close>
  is the first day of that month, and both filters use it:
  \<^verbatim>\<open>
  const monthDate = new Date(`${selectedMonth}-01`);
  const monthStart = monthDate.toISOString().split('T')[0];
  const { data: activeMembers } = await supabase.from('members').select('*')
    .lte('join_date', monthDate.toISOString().split('T')[0])
    .or(`leave_date.is.null,leave_date.gte.${monthStart}`);
  \<close>
\<close>

definition month_start :: "string \<Rightarrow> string" where
  "month_start selectedMonth = selectedMonth @ ''-01''"

definition active_members :: "string \<Rightarrow> Member list \<Rightarrow> Member list" where
  "active_members selectedMonth ms =
     filter (\<lambda>m. m_join_date m \<le> month_start selectedMonth
                 \<and> (case m_leave_date m of None \<Rightarrow> True
                     | Some l \<Rightarrow> month_start selectedMonth \<le> l)) ms"

definition fees_to_insert :: "string \<Rightarrow> rat \<Rightarrow> Member list \<Rightarrow> FeeInsert list" where
  "fees_to_insert selectedMonth feeAmount activeMembers =
     map (\<lambda>member. \<lparr> fi_member_id = m_id member, fi_fee_month = month_start selectedMonth,
                      fi_amount = feeAmount, fi_payment_status = ''unpaid'' \<rparr>) activeMembers"

definition handleGenerateFees ::
  "bool \<Rightarrow> (nat \<Rightarrow> uuid) \<Rightarrow> bool \<Rightarrow> string \<Rightarrow> rat \<Rightarrow> db \<Rightarrow> alert \<times> db" where
  "handleGenerateFees confirmed new_ids upsert_rejected selectedMonth feeAmount d =
     (if \<not> confirmed then (NoAlert, d)
      else let activeMembers = active_members selectedMonth (members d) in
        if activeMembers = [] then (NoActiveMembers, d)
        else if upsert_rejected then (ErrorGeneratingFees, d)
        else (GeneratedFees (length activeMembers),
              d\<lparr> membership_fees :=
                   upsert_ignore_duplicates new_ids (membership_fees d)
                     (fees_to_insert selectedMonth feeAmount activeMembers) \<rparr>))"

text \<open>
  \<open>MembershipFees.handleMarkPaid\<close>: the prompt gives the payment method (\<open>None\<close> when
  cancelled), the row is updated by id, and the ledger entry is built from the fee found
  in the page state \<open>fees\<close>, with \<open>amount: fee.amount\<close>.
\<close>

definition MembershipFees_handleMarkPaid ::
  "string \<Rightarrow> string \<Rightarrow> string option \<Rightarrow> bool \<Rightarrow> MembershipFee list \<Rightarrow> uuid \<Rightarrow> db \<Rightarrow> alert \<times> db" where
  "MembershipFees_handleMarkPaid today selectedMonth paymentMethod update_rejected fees feeId d =
     (case paymentMethod of
        None \<Rightarrow> (NoAlert, d)
      | Some pm \<Rightarrow>
          if pm = [] then (NoAlert, d)
          else if update_rejected then (ErrorUpdatingPayment, d)
          else
            let d1 = d\<lparr> membership_fees :=
                  map (\<lambda>f. if fee_id f = feeId
                            then f\<lparr> fee_payment_status := ''paid'', fee_payment_method := Some pm,
                                    fee_payment_date := Some today \<rparr>
                            else f) (membership_fees d) \<rparr>
            in (case find (\<lambda>f. fee_id f = feeId) fees of
                  None \<Rightarrow> (NoAlert, d1)
                | Some fee \<Rightarrow>
                    (NoAlert,
                     d1\<lparr> transactions_ledger := transactions_ledger d1 @
                       [\<lparr> le_txn_date = Text today, le_txn_type = ''membership_fee_payment'',
                          le_amount = Fin (fee_amount fee),
                          le_member_id = Some (fee_member_id fee),
                          le_project = ''General'', le_category = ''membership'',
                          le_description = Text (''Membership fee payment for '' @ selectedMonth
                             @ '' - '' @ fee_member_name fee),
                          le_source = pm, le_reference_type = ''membership_fee'',
                          le_reference_id = Some feeId \<rparr>] \<rparr>)))"

section \<open>Reimbursements and cash expenses\<close>

text \<open>\<open>Reimbursements.handleMarkPaid\<close>: as for fees, with \<open>amount: -reimb.amount\<close>.\<close>

definition Reimbursements_handleMarkPaid ::
  "string \<Rightarrow> string option \<Rightarrow> bool \<Rightarrow> Reimbursement list \<Rightarrow> uuid \<Rightarrow> db \<Rightarrow> alert \<times> db" where
  "Reimbursements_handleMarkPaid today paymentMethod update_rejected reimbursements_state
       reimbursementId d =
     (case paymentMethod of
        None \<Rightarrow> (NoAlert, d)
      | Some pm \<Rightarrow>
          if pm = [] then (NoAlert, d)
          else if update_rejected then (ErrorUpdatingPayment, d)
          else
            let d1 = d\<lparr> reimbursements :=
                  map (\<lambda>r. if rb_id r = reimbursementId
                            then r\<lparr> rb_payment_status := ''paid'', rb_payment_method := Some pm,
                                    rb_payment_date := Some today \<rparr>
                            else r) (reimbursements d) \<rparr>
            in (case find (\<lambda>r. rb_id r = reimbursementId) reimbursements_state of
                  None \<Rightarrow> (NoAlert, d1)
                | Some reimb \<Rightarrow>
                    (NoAlert,
                     d1\<lparr> transactions_ledger := transactions_ledger d1 @
                       [\<lparr> le_txn_date = Text today, le_txn_type = ''reimbursement_payment'',
                          le_amount = Fin (- rb_amount reimb),
                          le_member_id = Some (rb_member_id reimb),
                          le_project = rb_project reimb, le_category = rb_category reimb,
                          le_description = Text (''Reimbursement paid: '' @ rb_description reimb),
                          le_source = pm, le_reference_type = ''reimbursement'',
                          le_reference_id = Some reimbursementId \<rparr>] \<rparr>)))"

text \<open>
  \<open>CashExpenses.handleAddExpense\<close>: the form is inserted (the store returns the row
  with its id), then the ledger entry is posted with \<open>amount: -formData.amount\<close>.  The
  receipt fields of the form play no part and are left out.
\<close>

record ExpenseForm =
  ef_expense_date :: string
  ef_amount :: rat
  ef_description :: string
  ef_category :: string
  ef_project :: string
  ef_vendor :: string

definition handleAddExpense :: "uuid \<Rightarrow> bool \<Rightarrow> ExpenseForm \<Rightarrow> db \<Rightarrow> alert \<times> db" where
  "handleAddExpense new_id insert_rejected formData d =
     (if insert_rejected then (ErrorAddingExpense, d)
      else (NoAlert,
        d\<lparr> cash_expenses := cash_expenses d @
              [\<lparr> ce_id = new_id, ce_expense_date = ef_expense_date formData,
                 ce_amount = ef_amount formData, ce_description = ef_description formData,
                 ce_category = ef_category formData, ce_project = ef_project formData,
                 ce_vendor = ef_vendor formData \<rparr>],
           transactions_ledger := transactions_ledger d @
              [\<lparr> le_txn_date = Text (ef_expense_date formData), le_txn_type = ''cash_expense'',
                 le_amount = Fin (- ef_amount formData), le_member_id = None,
                 le_project = ef_project formData, le_category = ef_category formData,
                 le_description = Text (ef_description formData), le_source = ''cash'',
                 le_reference_type = ''cash_expense'', le_reference_id = Some new_id \<rparr>] \<rparr>))"


section \<open>Merchandise sales\<close>

record SaleItem =
  si_product_id :: uuid
  si_quantity :: int
  si_unit_price :: rat

record SaleForm =
  sf_member_id :: uuid
  sf_order_date :: string
  sf_payment_method :: string
  sf_payment_status :: string
  sf_items :: "SaleItem list"

text \<open>
  \<open>saleForm.items.reduce((sum, item) => sum + (item.quantity * item.unit_price), 0)\<close>
\<close>

definition sale_total :: "SaleItem list \<Rightarrow> rat" where
  "sale_total items =
     foldl (\<lambda>sum item. sum + of_int (si_quantity item) * si_unit_price item) 0 items"

text \<open>The rows for \<open>sales_order_items\<close>; the name comes from the page's product list.\<close>

definition order_items :: "Product list \<Rightarrow> uuid \<Rightarrow> SaleItem list \<Rightarrow> SalesOrderItem list" where
  "order_items products_state order_id items =
     map (\<lambda>item.
        \<lparr> soi_order_id = order_id, soi_product_id = si_product_id item,
          soi_product_name =
            (case find (\<lambda>p. p_id p = si_product_id item) products_state of
               None \<Rightarrow> [] | Some product \<Rightarrow> p_name product),
          soi_quantity = si_quantity item, soi_unit_price = si_unit_price item,
          soi_line_total = of_int (si_quantity item) * si_unit_price item \<rparr>) items"

text \<open>
  The stock loop.  Each update writes the stock of the page's copy of the product
  minus the item's quantity into the stored row with that id:
  \<^verbatim>\<open>
  for (const item of saleForm.items) {
    const product = products.find(p => p.id === item.product_id);
    if (product) {
      await supabase.from('products')
        .update({ stock_quantity: product.stock_quantity - item.quantity })
        .eq('id', item.product_id);
    }
  }
  \<close>
\<close>

fun update_stock :: "Product list \<Rightarrow> SaleItem list \<Rightarrow> Product list \<Rightarrow> Product list" where
  "update_stock products_state [] tbl = tbl"
| "update_stock products_state (item # items) tbl =
     (case find (\<lambda>p. p_id p = si_product_id item) products_state of
        None \<Rightarrow> update_stock products_state items tbl
      | Some product \<Rightarrow>
          update_stock products_state items
            (map (\<lambda>p. if p_id p = si_product_id item
                       then p\<lparr> p_stock_quantity := p_stock_quantity product - si_quantity item \<rparr>
                       else p) tbl))"

text \<open>
  \<open>MerchSales.handleCreateSale\<close>: the order is inserted (the store returns its id),
  then the items, then the stock is updated, and a paid sale posts \<open>amount: total\<close>.
\<close>

definition handleCreateSale ::
  "uuid \<Rightarrow> bool \<Rightarrow> bool \<Rightarrow> Product list \<Rightarrow> SaleForm \<Rightarrow> db \<Rightarrow> alert \<times> db" where
  "handleCreateSale new_id order_rejected items_rejected products_state saleForm d =
     (if sf_items saleForm = [] then (PleaseAddItem, d)
      else
        let total = sale_total (sf_items saleForm) in
        if order_rejected then (ErrorCreatingSale, d)
        else
          let d1 = d\<lparr> sales_orders := sales_orders d @
                [\<lparr> so_id = new_id, so_member_id = Some (sf_member_id saleForm),
                   so_order_date = sf_order_date saleForm,
                   so_payment_method = sf_payment_method saleForm,
                   so_payment_status = sf_payment_status saleForm,
                   so_total_amount = total \<rparr>] \<rparr>
          in
          if items_rejected then (ErrorCreatingSale, d1)
          else
            let d2 = d1\<lparr> sales_order_items := sales_order_items d1 @
                       order_items products_state new_id (sf_items saleForm) \<rparr>;
                d3 = d2\<lparr> products := update_stock products_state (sf_items saleForm) (products d2) \<rparr>
            in
            if sf_payment_status saleForm = ''paid''
            then (NoAlert,
                  d3\<lparr> transactions_ledger := transactions_ledger d3 @
                    [\<lparr> le_txn_date = Text (sf_order_date saleForm), le_txn_type = ''merch_sale'',
                       le_amount = Fin total, le_member_id = Some (sf_member_id saleForm),
                       le_project = ''General'', le_category = ''merch'',
                       le_description = Text ''Merch sale'',
                       le_source = sf_payment_method saleForm,
                       le_reference_type = ''sale_order'', le_reference_id = Some new_id \<rparr>] \<rparr>)
            else (NoAlert, d3))"

section \<open>Member balances report\<close>

record Balance =
  member_name :: string
  fees_owed :: rat
  sales_owed :: rat
  reimb_owed :: rat
  net_balance :: rat

text \<open>
  The additions and the subtraction of the report are those of JavaScript numbers; they
  are parameters of the model.
\<close>

record js_arith =
  js_add :: "rat \<Rightarrow> rat \<Rightarrow> rat"
  js_sub :: "rat \<Rightarrow> rat \<Rightarrow> rat"

text \<open>
  \<open>data?.f(..) || []\<close>: the rows a select returned, none when it failed and its
  \<open>data\<close> is \<open>null\<close>.
\<close>

definition rows_of :: "'a list option \<Rightarrow> 'a list" where
  "rows_of data = (case data of None \<Rightarrow> [] | Some rows \<Rightarrow> rows)"

text \<open>
  \<open>Reports.loadMemberBalances\<close>.  The four arguments after the arithmetic are the
  \<open>data\<close> of the four selects, whose errors the source does not read.
  \<open>parseFloat(String(x))\<close> on a stored number is the number itself, and
  \<open>reduce((sum, f) => sum + ..., 0)\<close> is a left fold from \<open>0\<close>:
  \<^verbatim>\<open>
  const balances = members?.map(member => {
    const memberFees = fees?.filter(f => f.member_id === member.id) || [];
    const memberSales = sales?.filter(s => s.member_id === member.id) || [];
    const memberReimb = reimbursements?.filter(r => r.member_id === member.id) || [];
    const feesCharged = memberFees.filter(f => f.payment_status === 'unpaid')
      .reduce((sum, f) => sum + parseFloat(String(f.amount)), 0);
    const salesUnpaid = memberSales.filter(s => s.payment_status === 'unpaid')
      .reduce((sum, s) => sum + parseFloat(String(s.total_amount)), 0);
    const reimbOwed = memberReimb.filter(r => r.payment_status === 'unpaid')
      .reduce((sum, r) => sum + parseFloat(String(r.amount)), 0);
    const netBalance = feesCharged + salesUnpaid - reimbOwed;
    return { member_name: member.full_name, fees_owed: feesCharged,
      sales_owed: salesUnpaid, reimb_owed: reimbOwed, net_balance: netBalance };
  }) || [];
  \<close>
\<close>

definition loadMemberBalances ::
  "js_arith \<Rightarrow> Member list option \<Rightarrow> MembershipFeeRow list option \<Rightarrow> SalesOrder list option
     \<Rightarrow> ReimbursementRow list option \<Rightarrow> Balance list" where
  "loadMemberBalances A members_data fees_data sales_data reimbursements_data =
     (case members_data of
        None \<Rightarrow> []
      | Some ms \<Rightarrow>
          map (\<lambda>member.
            let memberFees = (case fees_data of None \<Rightarrow> []
                  | Some fee_rows \<Rightarrow> filter (\<lambda>f. fee_member_id f = m_id member) fee_rows);
                memberSales = (case sales_data of None \<Rightarrow> []
                  | Some sale_rows \<Rightarrow>
                      filter (\<lambda>s. so_member_id s = Some (m_id member)) sale_rows);
                memberReimb = (case reimbursements_data of None \<Rightarrow> []
                  | Some reimb_rows \<Rightarrow>
                      filter (\<lambda>r. rb_member_id r = m_id member) reimb_rows);
                feesCharged = foldl (\<lambda>sum f. js_add A sum (fee_amount f)) 0
                   (filter (\<lambda>f. fee_payment_status f = ''unpaid'') memberFees);
                salesUnpaid = foldl (\<lambda>sum s. js_add A sum (so_total_amount s)) 0
                   (filter (\<lambda>s. so_payment_status s = ''unpaid'') memberSales);
                reimbOwed = foldl (\<lambda>sum r. js_add A sum (rb_amount r)) 0
                   (filter (\<lambda>r. rb_payment_status r = ''unpaid'') memberReimb);
                netBalance = js_sub A (js_add A feesCharged salesUnpaid) reimbOwed
            in \<lparr> member_name = m_full_name member, fees_owed = feesCharged,
                 sales_owed = salesUnpaid, reimb_owed = reimbOwed,
                 net_balance = netBalance \<rparr>) ms)"

section \<open>Member import\<close>

text \<open>
  A record of the uploaded JSON after \<open>handleFileUpload\<close>; \<open>full_name\<close> is
  \<open>undefined\<close> (\<open>None\<close>) when the file gives neither name key.
\<close>

record MemberImport =
  mi_full_name :: "string option"
  mi_team :: string
  mi_join_date :: string
  mi_notes :: string

text \<open>
  The names are compared after \<open>String.prototype.toLowerCase\<close>, which lowers every
  cased letter of Unicode.  It is the parameter \<open>lower\<close> of the model.
  \<^verbatim>\<open>
  const existingNames = new Set(members.map(m => m.full_name.toLowerCase()));
  const newMembers = importData.filter(m =>
    !existingNames.has(m.full_name?.toLowerCase()));
  \<close>
\<close>

definition new_members ::
  "(string \<Rightarrow> string) \<Rightarrow> Member list \<Rightarrow> MemberImport list \<Rightarrow> MemberImport list" where
  "new_members lower members_state importData =
     (let existingNames = set (map (\<lambda>m. lower (m_full_name m)) members_state)
      in filter (\<lambda>m. case mi_full_name m of
                        None \<Rightarrow> True
                      | Some n \<Rightarrow> lower n \<notin> existingNames) importData)"

text \<open>
  The inserted rows.  \<open>full_name text NOT NULL\<close>: a batch with a missing name is
  rejected by the store, so every inserted row has one.
\<close>

definition member_row :: "string \<Rightarrow> uuid \<Rightarrow> MemberImport \<Rightarrow> Member" where
  "member_row today new_id m =
     \<lparr> m_id = new_id,
       m_full_name = (case mi_full_name m of None \<Rightarrow> [] | Some n \<Rightarrow> n),
       m_team = mi_team m,
       m_join_date = (if mi_join_date m \<noteq> [] then mi_join_date m else today),
       m_leave_date = None, m_notes = mi_notes m \<rparr>"

definition Members_handleImport ::
  "(string \<Rightarrow> string) \<Rightarrow> string \<Rightarrow> (nat \<Rightarrow> uuid) \<Rightarrow> bool \<Rightarrow> Member list
     \<Rightarrow> MemberImport list \<Rightarrow> db \<Rightarrow> alert \<times> db" where
  "Members_handleImport lower today new_ids insert_rejected members_state importData d =
     (let newMembers = new_members lower members_state importData in
      if newMembers = [] then (NoNewMembers, d)
      else if insert_rejected \<or> list_ex (\<lambda>m. mi_full_name m = None) newMembers
      then (ErrorImportingMembers, d)
      else (ImportedMembers (length newMembers),
            d\<lparr> members := members d @
                 map (\<lambda>(k, m). member_row today (new_ids k) m) (enumerate 0 newMembers) \<rparr>))"


section \<open>Sample inputs\<close>

text \<open>
  A column mapping with a mapped direction column, and a statement row whose direction
  cell says \<open>in\<close> while its amount is negative.
\<close>

definition sample_mapping :: ColumnMapping where
  "sample_mapping = \<lparr> cm_txn_date = ''Date'', cm_description = ''Description'',
     cm_amount = ''Amount'', cm_direction = ''Direction'', cm_counterparty = [],
     cm_reference = [] \<rparr>"

definition sample_row :: ParsedRow where
  "sample_row = (\<lambda>_. Undefined)(''Date'' := Text ''04/01/2026-15:29:07'',
     ''Description'' := Text ''Market'', ''Amount'' := Number (Fin (- 50)),
     ''Direction'' := Text ''in'')"

definition empty_db :: db where
  "empty_db = \<lparr> members = [], products = [], sales_orders = [], sales_order_items = [],
     bank_transactions = [], cash_expenses = [], reimbursements = [], membership_fees = [],
     transactions_ledger = [] \<rparr>"

text \<open>
  A member who joined in the middle of January 2026, a member of longer standing with an
  unpaid fee and an unpaid reimbursement, two products, and two sales: one of two
  different products and one that lists the same product on two lines.
\<close>

definition january_joiner :: Member where
  "january_joiner = \<lparr> m_id = ''m1'', m_full_name = ''Jane Doe'', m_team = ''Electronics'',
     m_join_date = ''2026-01-15'', m_leave_date = None, m_notes = [] \<rparr>"

definition sample_member :: Member where
  "sample_member = \<lparr> m_id = ''m1'', m_full_name = ''jane doe'', m_team = ''Electronics'',
     m_join_date = ''2025-12-01'', m_leave_date = None, m_notes = [] \<rparr>"

definition sample_fee :: MembershipFee where
  "sample_fee = \<lparr> fee_id = ''f1'', fee_member_id = ''m1'', fee_month = ''2026-01-01'',
     fee_amount = 200, fee_payment_status = ''unpaid'', fee_payment_method = None,
     fee_payment_date = None, fee_member_name = ''jane doe'' \<rparr>"

definition sample_reimbursement :: Reimbursement where
  "sample_reimbursement = \<lparr> rb_id = ''r1'', rb_member_id = ''m1'',
     rb_purchase_date = ''2026-01-10'', rb_vendor = ''Shop'', rb_description = ''Bolts'',
     rb_amount = 100, rb_category = ''materials'', rb_project = ''General'',
     rb_payment_status = ''unpaid'', rb_payment_date = None, rb_payment_method = None,
     rb_member_name = ''jane doe'' \<rparr>"

definition sample_products :: "Product list" where
  "sample_products =
     [\<lparr> p_id = ''p1'', p_name = ''Team T-Shirt'', p_category = ''apparel'',
        p_unit_price = 50, p_stock_quantity = 10 \<rparr>,
      \<lparr> p_id = ''p2'', p_name = ''Sticker Pack'', p_category = ''accessories'',
        p_unit_price = 30, p_stock_quantity = 5 \<rparr>]"

definition sample_sale :: SaleForm where
  "sample_sale = \<lparr> sf_member_id = ''m1'', sf_order_date = ''2026-01-20'',
     sf_payment_method = ''cash'', sf_payment_status = ''paid'',
     sf_items = [\<lparr> si_product_id = ''p1'', si_quantity = 2, si_unit_price = 50 \<rparr>,
                 \<lparr> si_product_id = ''p2'', si_quantity = 1, si_unit_price = 30 \<rparr>] \<rparr>"

definition repeated_product_sale :: SaleForm where
  "repeated_product_sale = \<lparr> sf_member_id = ''m1'', sf_order_date = ''2026-01-20'',
     sf_payment_method = ''unpaid'', sf_payment_status = ''unpaid'',
     sf_items = [\<lparr> si_product_id = ''p1'', si_quantity = 2, si_unit_price = 50 \<rparr>,
                 \<lparr> si_product_id = ''p1'', si_quantity = 1, si_unit_price = 30 \<rparr>] \<rparr>"

definition balance_db :: db where
  "balance_db = empty_db\<lparr> members := [sample_member],
     membership_fees :=
       [\<lparr> fee_id = ''f1'', fee_member_id = ''m1'', fee_month = ''2026-01-01'',
          fee_amount = 200, fee_payment_status = ''unpaid'', fee_payment_method = None,
          fee_payment_date = None \<rparr>],
     reimbursements :=
       [\<lparr> rb_id = ''r1'', rb_member_id = ''m1'', rb_purchase_date = ''2026-01-10'',
          rb_vendor = ''Shop'', rb_description = ''Bolts'', rb_amount = 50,
          rb_category = ''materials'', rb_project = ''General'',
          rb_payment_status = ''unpaid'', rb_payment_date = None,
          rb_payment_method = None \<rparr>] \<rparr>"

definition jane_import :: MemberImport where
  "jane_import = \<lparr> mi_full_name = Some ''Jane Doe'', mi_team = ''Electronics'',
     mi_join_date = ''2026-01-05'', mi_notes = [] \<rparr>"

text \<open>Arithmetic without rounding, which is what doubles do on small whole numbers.\<close>

definition exact_arith :: js_arith where
  "exact_arith = \<lparr> js_add = (+), js_sub = (-) \<rparr>"

text \<open>The type and the amount of each ledger entry, in order.\<close>

definition postings :: "db \<Rightarrow> (string \<times> jsnum) list" where
  "postings d = map (\<lambda>e. (le_txn_type e, le_amount e)) (transactions_ledger d)"

section \<open>Properties of the string helpers\<close>

lemma str_includes_single: "str_includes s [c] = (c \<in> set s)"
  by (induction s) (auto split: list.splits)

lemma split_on_not_Nil: "split_on c xs \<noteq> []"
  by (induction xs) (auto split: list.splits)

lemma split_on_segment: "c \<notin> set a \<Longrightarrow> split_on c (a @ c # r) = a # split_on c r"
  by (induction a) auto

lemma split_on_last: "c \<notin> set a \<Longrightarrow> split_on c a = [a]"
  by (induction a) auto

lemma split_on_Cons:
  "split_on c xs = p # ps \<Longrightarrow>
     c \<notin> set p \<and> (if ps = [] then xs = p else \<exists>r. xs = p @ c # r \<and> split_on c r = ps)"
proof (induction xs arbitrary: p ps)
  case Nil
  then show ?case by simp
next
  case (Cons x xs)
  show ?case
  proof (cases "x = c")
    case True
    with Cons.prems show ?thesis by (auto simp: split_on_not_Nil)
  next
    case False
    obtain q qs where q: "split_on c xs = q # qs"
      using split_on_not_Nil[of c xs] by (cases "split_on c xs") auto
    with False Cons.prems have p: "p = x # q" "ps = qs" by auto
    from Cons.IH[OF q] False p show ?thesis by auto
  qed
qed

lemma split_on_three:
  assumes "split_on c xs = [d, m, y]"
  shows "xs = d @ c # m @ c # y \<and> c \<notin> set d \<and> c \<notin> set m \<and> c \<notin> set y"
proof -
  from split_on_Cons[OF assms] obtain r where r: "xs = d @ c # r" "split_on c r = [m, y]" "c \<notin> set d"
    by auto
  from split_on_Cons[OF r(2)] obtain r' where r': "r = m @ c # r'" "split_on c r' = [y]" "c \<notin> set m"
    by auto
  from split_on_Cons[OF r'(2)] have "r' = y" "c \<notin> set y" by auto
  with r r' show ?thesis by simp
qed

lemma takeWhile_prefix:
  assumes "\<forall>x\<in>set a. P x" and "rest = [] \<or> \<not> P (hd rest)"
  shows "takeWhile P (a @ rest) = a"
proof (cases rest)
  case Nil
  with assms(1) show ?thesis by (simp add: takeWhile_eq_all_conv)
next
  case (Cons r rs)
  with assms(2) have "\<not> P r" by simp
  with assms(1) Cons show ?thesis by (simp add: takeWhile_append2)
qed

lemma takeWhile_split:
  "\<exists>rest. s = takeWhile P s @ rest \<and> (rest = [] \<or> \<not> P (hd rest))
     \<and> (\<forall>x\<in>set (takeWhile P s). P x)"
proof -
  have "s = takeWhile P s @ dropWhile P s" by simp
  moreover have "dropWhile P s = [] \<or> \<not> P (hd (dropWhile P s))"
    using hd_dropWhile[of P s] by blast
  moreover have "\<forall>x\<in>set (takeWhile P s). P x"
    by (blast dest: set_takeWhileD)
  ultimately show ?thesis by blast
qed

lemma disjoint_dash_space:
  "(\<forall>x\<in>A. x \<noteq> CHR ''-'' \<and> x \<noteq> CHR '' '') \<longleftrightarrow> A \<inter> set ''- '' = {}"
  by auto

lemma mem_dash_space: "c \<in> set ''- '' \<longleftrightarrow> \<not> (c \<noteq> CHR ''-'' \<and> c \<noteq> CHR '' '')"
  by auto

lemma before_dash_or_space_append:
  "set a \<inter> set ''- '' = {} \<Longrightarrow> rest = [] \<or> hd rest \<in> set ''- ''
     \<Longrightarrow> before_dash_or_space (a @ rest) = a"
  unfolding before_dash_or_space_def disjoint_dash_space[symmetric] mem_dash_space
  by (rule takeWhile_prefix)

lemma before_dash_or_space_split:
  "\<exists>rest. s = before_dash_or_space s @ rest \<and> (rest = [] \<or> hd rest \<in> set ''- '')
     \<and> set (before_dash_or_space s) \<inter> set ''- '' = {}"
  unfolding before_dash_or_space_def disjoint_dash_space[symmetric] mem_dash_space
  by (rule takeWhile_split)

section \<open>Bank date normalization\<close>

text \<open>
  What the date block does to a string, stated on the string itself: \<open>s\<close> is
  \<open>day/month/year\<close> followed by nothing or by a rest that starts with a hyphen or a
  space, and no segment holds a slash, a hyphen or a space.
\<close>

lemma normalize_date_cases:
  "(s = day @ ''/'' @ month @ ''/'' @ year @ rest \<and> (rest = [] \<or> hd rest \<in> set ''- '')
      \<and> set (day @ month @ year) \<inter> set ''/- '' = {}
      \<and> length day \<le> 2 \<and> length month \<le> 2 \<and> length year = 4
    \<longrightarrow> normalize_date (Text s) =
          Text (year @ ''-'' @ replicate (2 - length month) CHR ''0'' @ month
                  @ ''-'' @ replicate (2 - length day) CHR ''0'' @ day))
   \<and> ((\<nexists>d m y r. s = d @ ''/'' @ m @ ''/'' @ y @ r \<and> (r = [] \<or> hd r \<in> set ''- '')
          \<and> set (d @ m @ y) \<inter> set ''/- '' = {}
          \<and> length d \<le> 2 \<and> length m \<le> 2 \<and> length y = 4)
    \<longrightarrow> normalize_date (Text s) = Text s)
   \<and> normalize_date (Text ''04/01/2026-15:29:07'') = Text ''2026-01-04''
   \<and> normalize_date (Text ''31/12/2025'') = Text ''2025-12-31''
   \<and> normalize_date (Text ''2026-01-04'') = Text ''2026-01-04''"
proof (intro conjI impI)
  assume h: "s = day @ ''/'' @ month @ ''/'' @ year @ rest \<and> (rest = [] \<or> hd rest \<in> set ''- '')
      \<and> set (day @ month @ year) \<inter> set ''/- '' = {}
      \<and> length day \<le> 2 \<and> length month \<le> 2 \<and> length year = 4"
  let ?dp = "day @ ''/'' @ month @ ''/'' @ year"
  from h have s: "s = ?dp @ rest" by simp
  from h have nodash: "set ?dp \<inter> set ''- '' = {}" by auto
  from h have rest: "rest = [] \<or> hd rest \<in> set ''- ''" by simp
  have dp: "before_dash_or_space s = ?dp"
    unfolding s by (rule before_dash_or_space_append[OF nodash rest])
  from h have ns: "CHR ''/'' \<notin> set day" "CHR ''/'' \<notin> set month" "CHR ''/'' \<notin> set year" by auto
  have sp: "split_on CHR ''/'' ?dp = [day, month, year]"
    using ns by (simp add: split_on_segment split_on_last)
  have inc: "str_includes s ''/''" unfolding s by (simp add: str_includes_single)
  from h have len: "length day \<le> 2" "length month \<le> 2" "length year = 4" by auto
  show "normalize_date (Text s) =
          Text (year @ ''-'' @ replicate (2 - length month) CHR ''0'' @ month
                  @ ''-'' @ replicate (2 - length day) CHR ''0'' @ day)"
    using inc len sp by (simp add: normalize_date_string_def dp padStart2_def)
next
  assume h: "\<nexists>d m y r. s = d @ ''/'' @ m @ ''/'' @ y @ r \<and> (r = [] \<or> hd r \<in> set ''- '')
          \<and> set (d @ m @ y) \<inter> set ''/- '' = {}
          \<and> length d \<le> 2 \<and> length m \<le> 2 \<and> length y = 4"
  show "normalize_date (Text s) = Text s"
  proof (rule ccontr)
    assume ne: "normalize_date (Text s) \<noteq> Text s"
    then obtain d m y where sp: "split_on CHR ''/'' (before_dash_or_space s) = [d, m, y]"
      and len: "length d \<le> 2" "length m \<le> 2" "length y = 4"
      by (auto simp: normalize_date_string_def split: if_splits list.splits)
    from split_on_three[OF sp] have dp: "before_dash_or_space s = d @ ''/'' @ m @ ''/'' @ y"
      and ns: "CHR ''/'' \<notin> set d" "CHR ''/'' \<notin> set m" "CHR ''/'' \<notin> set y" by auto
    from before_dash_or_space_split[of s] obtain r where
      r: "s = before_dash_or_space s @ r" "r = [] \<or> hd r \<in> set ''- ''"
         "set (before_dash_or_space s) \<inter> set ''- '' = {}" by blast
    have "s = d @ ''/'' @ m @ ''/'' @ y @ r" using r(1) dp by simp
    moreover have "set (d @ m @ y) \<inter> set ''/- '' = {}" using r(3) ns unfolding dp by auto
    ultimately show False using h r(2) len by blast
  qed
qed (simp_all add: normalize_date_string_def before_dash_or_space_def padStart2_def)


text \<open>The row callback stores the normalized value of the mapped date cell.\<close>

lemma to_transaction_txn_date:
  "bt_txn_date (to_transaction B file_name cm row) = normalize_date (row (cm_txn_date cm))"
  by (simp add: to_transaction_def Let_def)

text \<open>
  Claim C7.  For every row whose mapped date cell is a string, the date the import
  stores is obtained as follows.  The string is cut at its first hyphen or space and the
  text before the cut is split at the slashes.  When this gives exactly three segments,
  the first two of at most two characters and the third of four (the source tests the
  lengths of the segments, so a digit here is a character position), the stored date is
  year-month-day with month and day padded with zeros to two characters.  For every
  other string, in particular one with no slash such as an ISO date, the stored date is
  the string unchanged.  So \<open>04/01/2026-15:29:07\<close> is stored as
  \<open>2026-01-04\<close>, \<open>31/12/2025\<close> as \<open>2025-12-31\<close>, and
  \<open>2026-01-04\<close> as it is.
\<close>

theorem bank_date_normalization:
  "(row (cm_txn_date cm) = Text s
      \<and> s = day @ ''/'' @ month @ ''/'' @ year @ rest \<and> (rest = [] \<or> hd rest \<in> set ''- '')
      \<and> set (day @ month @ year) \<inter> set ''/- '' = {}
      \<and> length day \<le> 2 \<and> length month \<le> 2 \<and> length year = 4
    \<longrightarrow> bt_txn_date (to_transaction B file_name cm row) =
          Text (year @ ''-'' @ replicate (2 - length month) CHR ''0'' @ month
                  @ ''-'' @ replicate (2 - length day) CHR ''0'' @ day))
   \<and> (row (cm_txn_date cm) = Text s
      \<and> (\<nexists>d m y r. s = d @ ''/'' @ m @ ''/'' @ y @ r \<and> (r = [] \<or> hd r \<in> set ''- '')
          \<and> set (d @ m @ y) \<inter> set ''/- '' = {}
          \<and> length d \<le> 2 \<and> length m \<le> 2 \<and> length y = 4)
    \<longrightarrow> bt_txn_date (to_transaction B file_name cm row) = Text s)
   \<and> (row (cm_txn_date cm) = Text ''04/01/2026-15:29:07''
    \<longrightarrow> bt_txn_date (to_transaction B file_name cm row) = Text ''2026-01-04'')
   \<and> (row (cm_txn_date cm) = Text ''31/12/2025''
    \<longrightarrow> bt_txn_date (to_transaction B file_name cm row) = Text ''2025-12-31'')
   \<and> (row (cm_txn_date cm) = Text ''2026-01-04''
    \<longrightarrow> bt_txn_date (to_transaction B file_name cm row) = Text ''2026-01-04'')"
proof (intro conjI impI)
  assume h: "row (cm_txn_date cm) = Text s
      \<and> s = day @ ''/'' @ month @ ''/'' @ year @ rest \<and> (rest = [] \<or> hd rest \<in> set ''- '')
      \<and> set (day @ month @ year) \<inter> set ''/- '' = {}
      \<and> length day \<le> 2 \<and> length month \<le> 2 \<and> length year = 4"
  then have c: "row (cm_txn_date cm) = Text s" by blast
  from h have "normalize_date (Text s) =
          Text (year @ ''-'' @ replicate (2 - length month) CHR ''0'' @ month
                  @ ''-'' @ replicate (2 - length day) CHR ''0'' @ day)"
    using normalize_date_cases[of s day month year rest] by blast
  then show "bt_txn_date (to_transaction B file_name cm row) =
          Text (year @ ''-'' @ replicate (2 - length month) CHR ''0'' @ month
                  @ ''-'' @ replicate (2 - length day) CHR ''0'' @ day)"
    unfolding to_transaction_txn_date c .
next
  assume h: "row (cm_txn_date cm) = Text s
      \<and> (\<nexists>d m y r. s = d @ ''/'' @ m @ ''/'' @ y @ r \<and> (r = [] \<or> hd r \<in> set ''- '')
          \<and> set (d @ m @ y) \<inter> set ''/- '' = {}
          \<and> length d \<le> 2 \<and> length m \<le> 2 \<and> length y = 4)"
  then have c: "row (cm_txn_date cm) = Text s" by blast
  from h have "normalize_date (Text s) = Text s"
    using normalize_date_cases[of s] by blast
  then show "bt_txn_date (to_transaction B file_name cm row) = Text s"
    unfolding to_transaction_txn_date c .
next
  assume c: "row (cm_txn_date cm) = Text ''04/01/2026-15:29:07''"
  have "normalize_date (Text ''04/01/2026-15:29:07'') = Text ''2026-01-04''"
    using normalize_date_cases by blast
  then show "bt_txn_date (to_transaction B file_name cm row) = Text ''2026-01-04''"
    unfolding to_transaction_txn_date c .
next
  assume c: "row (cm_txn_date cm) = Text ''31/12/2025''"
  have "normalize_date (Text ''31/12/2025'') = Text ''2025-12-31''"
    using normalize_date_cases by blast
  then show "bt_txn_date (to_transaction B file_name cm row) = Text ''2025-12-31''"
    unfolding to_transaction_txn_date c .
next
  assume c: "row (cm_txn_date cm) = Text ''2026-01-04''"
  have "normalize_date (Text ''2026-01-04'') = Text ''2026-01-04''"
    using normalize_date_cases by blast
  then show "bt_txn_date (to_transaction B file_name cm row) = Text ''2026-01-04''"
    unfolding to_transaction_txn_date c .
qed

theorem bank_date_normalization_witness:
  "\<forall>B. bt_txn_date (to_transaction B ''statement.xlsx'' sample_mapping sample_row)
          = Text ''2026-01-04''
      \<and> bt_txn_date (to_transaction B ''statement.xlsx'' sample_mapping
            (sample_row(''Date'' := Text ''4/1/2026 15:29''))) = Text ''2026-01-04''
      \<and> bt_txn_date (to_transaction B ''statement.xlsx'' sample_mapping
            (sample_row(''Date'' := Text ''2026/01''))) = Text ''2026/01''"
proof (intro allI conjI)
  fix B
  have c0: "sample_row (cm_txn_date sample_mapping) = Text ''04/01/2026-15:29:07''"
    by (simp add: sample_row_def sample_mapping_def)
  show "bt_txn_date (to_transaction B ''statement.xlsx'' sample_mapping sample_row)
          = Text ''2026-01-04''"
    using bank_date_normalization[of sample_row sample_mapping "''04/01/2026-15:29:07''"
        "''04''" "''01''" "''2026''" "''-15:29:07''" B "''statement.xlsx''"] c0
    by simp
  have c1: "(sample_row(''Date'' := Text ''4/1/2026 15:29'')) (cm_txn_date sample_mapping)
      = Text ''4/1/2026 15:29''"
    by (simp add: sample_mapping_def)
  show "bt_txn_date (to_transaction B ''statement.xlsx'' sample_mapping
            (sample_row(''Date'' := Text ''4/1/2026 15:29''))) = Text ''2026-01-04''"
    using bank_date_normalization[of "sample_row(''Date'' := Text ''4/1/2026 15:29'')"
        sample_mapping "''4/1/2026 15:29''" "''4''" "''1''" "''2026''" "'' 15:29''" B
        "''statement.xlsx''"] c1
    by simp
  have c2: "(sample_row(''Date'' := Text ''2026/01'')) (cm_txn_date sample_mapping)
      = Text ''2026/01''"
    by (simp add: sample_mapping_def)
  have n: "\<nexists>d m y r. ''2026/01'' = d @ ''/'' @ m @ ''/'' @ (y::string) @ r
          \<and> (r = [] \<or> hd r \<in> set ''- '')
          \<and> set (d @ m @ y) \<inter> set ''/- '' = {}
          \<and> length d \<le> 2 \<and> length m \<le> 2 \<and> length y = 4"
  proof
    assume "\<exists>d m y r. ''2026/01'' = d @ ''/'' @ m @ ''/'' @ (y::string) @ r
          \<and> (r = [] \<or> hd r \<in> set ''- '')
          \<and> set (d @ m @ y) \<inter> set ''/- '' = {}
          \<and> length d \<le> 2 \<and> length m \<le> 2 \<and> length y = 4"
    then obtain d m y r where e: "''2026/01'' = d @ ''/'' @ m @ ''/'' @ (y::string) @ r" by blast
    have "count_list (d @ ''/'' @ m @ ''/'' @ y @ r) CHR ''/'' \<ge> 2" by simp
    with e[symmetric] show False by simp
  qed
  show "bt_txn_date (to_transaction B ''statement.xlsx'' sample_mapping
            (sample_row(''Date'' := Text ''2026/01''))) = Text ''2026/01''"
    using bank_date_normalization[of "sample_row(''Date'' := Text ''2026/01'')"
        sample_mapping "''2026/01''" _ _ _ _ B "''statement.xlsx''"] c2 n
    by blast
qed

section \<open>Bank rows: amount and direction\<close>

lemma lower_in: "toLowerCase ''in'' = ''in''"
  by (simp add: toLowerCase_def lower_char_def)

lemma lower_out: "toLowerCase ''out'' = ''out''"
  by (simp add: toLowerCase_def lower_char_def)

text \<open>
  Claim C8 as stated fails.  With a direction column mapped and its cell reading
  \<open>in\<close>, a row whose raw amount is \<open>-50\<close> is stored with amount \<open>50\<close> and
  direction \<open>out\<close>: the stored direction is
  \<open>direction.toLowerCase().includes('out') || amount < 0 ? 'out' : 'in'\<close>, so a
  negative amount decides the direction whatever the column says.
\<close>

theorem bank_direction_counterexample:
  "cm_direction sample_mapping \<noteq> []
   \<and> sample_row (cm_direction sample_mapping) = Text ''in''
   \<and> \<not> str_includes (toLowerCase ''in'') ''out''
   \<and> (\<forall>B. raw_amount B (sample_row (cm_amount sample_mapping)) = Fin (- 50)
          \<and> bt_amount (to_transaction B ''statement.xlsx'' sample_mapping sample_row) = Fin 50
          \<and> bt_direction (to_transaction B ''statement.xlsx'' sample_mapping sample_row) = ''out'')"
  by (simp add: sample_mapping_def sample_row_def to_transaction_def row_direction_def
        raw_amount_def or_else_def lower_in Let_def)

text \<open>
  Claim C8, amended.  For every parsed row the stored amount is the absolute value of
  the raw amount.  The stored direction is \<open>out\<close> when the raw amount is negative;
  otherwise, when a direction column is mapped, it is \<open>out\<close> exactly when the column
  value (read as \<open>in\<close> when the cell is empty) contains \<open>out\<close> in any letter
  case; and when no direction column is mapped it is \<open>in\<close> exactly when the raw
  amount is at least zero.
\<close>

theorem bank_amount_direction:
  "bt_amount (to_transaction B file_name cm row) = js_abs (raw_amount B (row (cm_amount cm)))
   \<and> bt_direction (to_transaction B file_name cm row) =
       (if js_lt0 (raw_amount B (row (cm_amount cm))) then ''out''
        else if cm_direction cm \<noteq> [] then
          (if str_includes
                (toLowerCase (js_String (numToString B)
                   (or_else (row (cm_direction cm)) (Text ''in'')))) ''out''
           then ''out'' else ''in'')
        else if js_ge0 (raw_amount B (row (cm_amount cm))) then ''in'' else ''out'')"
proof (cases "raw_amount B (row (cm_amount cm))")
  case NaN
  then show ?thesis
    by (simp add: to_transaction_def row_direction_def Let_def lower_in lower_out)
next
  case (Fin q)
  then show ?thesis
    by (simp add: to_transaction_def row_direction_def Let_def lower_in lower_out)
qed

theorem bank_amount_direction_witness:
  "\<forall>B. bt_amount (to_transaction B ''statement.xlsx'' sample_mapping sample_row) = Fin 50
      \<and> bt_direction (to_transaction B ''statement.xlsx'' sample_mapping sample_row) = ''out''"
proof
  fix B
  have r: "raw_amount B (sample_row (cm_amount sample_mapping)) = Fin (- 50)"
    by (simp add: sample_mapping_def sample_row_def raw_amount_def or_else_def)
  show "bt_amount (to_transaction B ''statement.xlsx'' sample_mapping sample_row) = Fin 50
      \<and> bt_direction (to_transaction B ''statement.xlsx'' sample_mapping sample_row) = ''out''"
    using bank_amount_direction[of B "''statement.xlsx''" sample_mapping sample_row]
    by (simp add: r)
qed

section \<open>Bank import: deduplication\<close>

lemma new_transactions_stored:
  "new_transactions False stored ts =
     filter (\<lambda>t. bt_import_hash t \<notin> bt_import_hash ` set stored) ts"
proof -
  have "set (existing_hashes False stored ts)
      = bt_import_hash ` set stored \<inter> bt_import_hash ` set ts"
    unfolding existing_hashes_def by force
  then show ?thesis
    unfolding new_transactions_def by (intro filter_cong) auto
qed

lemma new_transactions_lookup_failed: "new_transactions True stored ts = ts"
  by (simp add: new_transactions_def existing_hashes_def)

lemma new_transactions_filter:
  "new_transactions lookup_failed stored ts =
     filter (\<lambda>t. lookup_failed \<or> bt_import_hash t \<notin> bt_import_hash ` set stored) ts"
  by (cases lookup_failed) (simp_all add: new_transactions_stored new_transactions_lookup_failed)

lemma new_transactions_after_insert:
  "new_transactions False (stored @ new_transactions lookup_failed stored ts) ts = []"
  unfolding new_transactions_stored new_transactions_filter[of lookup_failed]
  by (auto simp: filter_empty_conv)

text \<open>
  Claim C10.  The duplicate filter keeps a row exactly when its hash is not among the
  hashes stored before the run (or the lookup failed); rows of the same upload are not
  compared with each other.  So an upload of twice the same row, whose hash is not yet
  stored, inserts both rows and posts a ledger entry for each.
\<close>

theorem bank_import_same_upload_duplicates:
  "new_transactions lookup_failed stored ts =
     filter (\<lambda>t. lookup_failed \<or> bt_import_hash t \<notin> bt_import_hash ` set stored) ts
   \<and> (lookup_failed \<or> bt_import_hash (to_transaction B file_name cm row)
          \<notin> bt_import_hash ` set (bank_transactions d)
        \<longrightarrow> BankImport_handleImport B file_name cm [row, row] lookup_failed False d =
          (ImportedTransactions 2,
           d\<lparr> bank_transactions := bank_transactions d
                  @ [to_transaction B file_name cm row, to_transaction B file_name cm row],
              transactions_ledger := transactions_ledger d
                  @ [bank_ledger_entry (to_transaction B file_name cm row),
                     bank_ledger_entry (to_transaction B file_name cm row)] \<rparr>))"
proof (intro conjI impI)
  show "new_transactions lookup_failed stored ts =
     filter (\<lambda>t. lookup_failed \<or> bt_import_hash t \<notin> bt_import_hash ` set stored) ts"
    by (rule new_transactions_filter)
next
  assume "lookup_failed \<or> bt_import_hash (to_transaction B file_name cm row)
          \<notin> bt_import_hash ` set (bank_transactions d)"
  then have "new_transactions lookup_failed (bank_transactions d)
        [to_transaction B file_name cm row, to_transaction B file_name cm row]
      = [to_transaction B file_name cm row, to_transaction B file_name cm row]"
    unfolding new_transactions_filter by auto
  then show "BankImport_handleImport B file_name cm [row, row] lookup_failed False d =
          (ImportedTransactions 2,
           d\<lparr> bank_transactions := bank_transactions d
                  @ [to_transaction B file_name cm row, to_transaction B file_name cm row],
              transactions_ledger := transactions_ledger d
                  @ [bank_ledger_entry (to_transaction B file_name cm row),
                     bank_ledger_entry (to_transaction B file_name cm row)] \<rparr>)"
    by (simp add: BankImport_handleImport_def Let_def)
qed

theorem bank_import_same_upload_duplicates_witness:
  "\<forall>B. bank_transactions (snd (BankImport_handleImport B ''statement.xlsx'' sample_mapping
            [sample_row, sample_row] False False empty_db))
        = [to_transaction B ''statement.xlsx'' sample_mapping sample_row,
           to_transaction B ''statement.xlsx'' sample_mapping sample_row]
      \<and> length (transactions_ledger (snd (BankImport_handleImport B ''statement.xlsx''
            sample_mapping [sample_row, sample_row] False False empty_db))) = 2"
proof
  fix B
  have "bt_import_hash (to_transaction B ''statement.xlsx'' sample_mapping sample_row)
          \<notin> bt_import_hash ` set (bank_transactions empty_db)"
    by (simp add: empty_db_def)
  with bank_import_same_upload_duplicates[of False _ _ B "''statement.xlsx''" sample_mapping
      sample_row empty_db]
  show "bank_transactions (snd (BankImport_handleImport B ''statement.xlsx'' sample_mapping
            [sample_row, sample_row] False False empty_db))
        = [to_transaction B ''statement.xlsx'' sample_mapping sample_row,
           to_transaction B ''statement.xlsx'' sample_mapping sample_row]
      \<and> length (transactions_ledger (snd (BankImport_handleImport B ''statement.xlsx''
            sample_mapping [sample_row, sample_row] False False empty_db))) = 2"
    by (simp add: empty_db_def)
qed





text \<open>
  The deduplication rests on the lookup.  When the lookup of a later run fails and the
  store accepts the insert, every row of the upload is inserted again and gets a second
  ledger entry: the table has no unique constraint on \<open>import_hash\<close>.
\<close>

lemma bank_import_lookup_failed_inserts_all:
  "parsedData \<noteq> [] \<Longrightarrow>
   BankImport_handleImport B file_name cm parsedData True False d =
     (ImportedTransactions (length parsedData),
      d\<lparr> bank_transactions :=
           bank_transactions d @ map (to_transaction B file_name cm) parsedData,
         transactions_ledger := transactions_ledger d
           @ map bank_ledger_entry (map (to_transaction B file_name cm) parsedData) \<rparr>)"
  by (simp add: BankImport_handleImport_def Let_def new_transactions_lookup_failed)

section \<open>Fee generation\<close>

lemma fee_conflict_append: "fee_conflict tbl r \<Longrightarrow> fee_conflict (tbl @ extra) r"
  by (auto simp: fee_conflict_def list_ex_iff)

lemma upsert_keeps_rows:
  "take (length tbl) (upsert_ignore_duplicates new_ids tbl rs) = tbl"
proof (induction rs arbitrary: tbl)
  case Nil
  show ?case by simp
next
  case (Cons r rs)
  show ?case
  proof (cases "fee_conflict tbl r")
    case True
    with Cons.IH[of tbl] show ?thesis by simp
  next
    case False
    let ?tbl' = "tbl @ [fee_row (new_ids (length tbl)) r]"
    have "take (length tbl) (upsert_ignore_duplicates new_ids ?tbl' rs)
        = take (length tbl) (take (length ?tbl') (upsert_ignore_duplicates new_ids ?tbl' rs))"
      by (simp add: min_def)
    also have "\<dots> = take (length tbl) ?tbl'" by (simp only: Cons.IH[of ?tbl'])
    also have "\<dots> = tbl" by simp
    finally show ?thesis using False by simp
  qed
qed

lemma upsert_extends:
  "\<exists>extra. upsert_ignore_duplicates new_ids tbl rs = tbl @ extra"
  by (metis append_take_drop_id upsert_keeps_rows)

lemma upsert_conflict_kept:
  "fee_conflict tbl r \<Longrightarrow> fee_conflict (upsert_ignore_duplicates new_ids tbl rs) r"
  using upsert_extends[of new_ids tbl rs] by (auto simp: fee_conflict_append)

lemma upsert_covers:
  "r \<in> set rs \<Longrightarrow> fee_conflict (upsert_ignore_duplicates new_ids tbl rs) r"
proof (induction rs arbitrary: tbl)
  case Nil
  then show ?case by simp
next
  case (Cons a rs)
  show ?case
  proof (cases "r = a")
    case True
    show ?thesis
    proof (cases "fee_conflict tbl a")
      case c: True
      with True show ?thesis by (simp add: upsert_conflict_kept)
    next
      case c: False
      have "fee_conflict (tbl @ [fee_row (new_ids (length tbl)) a]) a"
        by (simp add: fee_conflict_def fee_row_def)
      with c True show ?thesis by (simp add: upsert_conflict_kept)
    qed
  next
    case False
    with Cons.prems have "r \<in> set rs" by simp
    then show ?thesis using Cons.IH by simp
  qed
qed

lemma upsert_all_conflicts:
  "list_all (fee_conflict tbl) rs \<Longrightarrow> upsert_ignore_duplicates new_ids tbl rs = tbl"
  by (induction rs) auto

lemma fee_conflict_key:
  "fi_member_id r = fi_member_id r' \<Longrightarrow> fi_fee_month r = fi_fee_month r'
     \<Longrightarrow> fee_conflict tbl r = fee_conflict tbl r'"
  by (simp add: fee_conflict_def)

lemma regenerate_no_change:
  "upsert_ignore_duplicates new_ids2
     (upsert_ignore_duplicates new_ids tbl (fees_to_insert selectedMonth feeAmount ms))
     (fees_to_insert selectedMonth feeAmount2 ms)
   = upsert_ignore_duplicates new_ids tbl (fees_to_insert selectedMonth feeAmount ms)"
proof (rule upsert_all_conflicts)
  let ?t1 = "upsert_ignore_duplicates new_ids tbl (fees_to_insert selectedMonth feeAmount ms)"
  have "fee_conflict ?t1 r2" if "r2 \<in> set (fees_to_insert selectedMonth feeAmount2 ms)" for r2
  proof -
    from that obtain m where m: "m \<in> set ms"
      and r2: "r2 = \<lparr> fi_member_id = m_id m, fi_fee_month = month_start selectedMonth,
                      fi_amount = feeAmount2, fi_payment_status = ''unpaid'' \<rparr>"
      by (auto simp: fees_to_insert_def)
    let ?r1 = "\<lparr> fi_member_id = m_id m, fi_fee_month = month_start selectedMonth,
                      fi_amount = feeAmount, fi_payment_status = ''unpaid'' \<rparr>"
    from m have "?r1 \<in> set (fees_to_insert selectedMonth feeAmount ms)"
      by (auto simp: fees_to_insert_def)
    then have "fee_conflict ?t1 ?r1" by (rule upsert_covers)
    then show ?thesis unfolding r2 by (simp add: fee_conflict_def)
  qed
  then show "list_all (fee_conflict ?t1) (fees_to_insert selectedMonth feeAmount2 ms)"
    by (simp add: list_all_iff)
qed

text \<open>
  Claim C6.  A generation run never touches a fee row that is already stored, paid or
  not: the table after the run starts with the table before it.  After a run that was
  confirmed and accepted by the store, a second run for the same month, with the same or
  any other fee amount, leaves the whole store as it is: it creates no fee row, changes
  none, and the number of fee rows is the same.
\<close>

theorem fee_generation_idempotent:
  "take (length (membership_fees d))
      (membership_fees (snd (handleGenerateFees confirmed new_ids rejected selectedMonth feeAmount d)))
     = membership_fees d
   \<and> (let d1 = snd (handleGenerateFees True new_ids False selectedMonth feeAmount d);
          d2 = snd (handleGenerateFees confirmed' new_ids' rejected' selectedMonth feeAmount' d1)
      in d2 = d1 \<and> membership_fees d2 = membership_fees d1
         \<and> length (membership_fees d2) = length (membership_fees d1))"
proof (intro conjI)
  show "take (length (membership_fees d))
      (membership_fees (snd (handleGenerateFees confirmed new_ids rejected selectedMonth feeAmount d)))
     = membership_fees d"
    by (simp add: handleGenerateFees_def Let_def upsert_keeps_rows)
next
  have m1: "members (snd (handleGenerateFees True new_ids False selectedMonth feeAmount d)) = members d"
    by (simp add: handleGenerateFees_def Let_def)
  show "let d1 = snd (handleGenerateFees True new_ids False selectedMonth feeAmount d);
          d2 = snd (handleGenerateFees confirmed' new_ids' rejected' selectedMonth feeAmount' d1)
      in d2 = d1 \<and> membership_fees d2 = membership_fees d1
         \<and> length (membership_fees d2) = length (membership_fees d1)"
  proof (cases "active_members selectedMonth (members d) = []")
    case True
    then show ?thesis by (simp add: handleGenerateFees_def Let_def)
  next
    case False
    then show ?thesis
      by (simp add: handleGenerateFees_def Let_def regenerate_no_change)
  qed
qed

theorem fee_generation_idempotent_witness:
  "length (membership_fees
      (snd (handleGenerateFees True (\<lambda>k. ''f2'') False ''2026-02'' 200 balance_db))) = 2
   \<and> snd (handleGenerateFees True (\<lambda>k. ''f3'') False ''2026-02'' 200
          (snd (handleGenerateFees True (\<lambda>k. ''f2'') False ''2026-02'' 200 balance_db)))
     = snd (handleGenerateFees True (\<lambda>k. ''f2'') False ''2026-02'' 200 balance_db)"
proof -
  have a: "length (membership_fees
      (snd (handleGenerateFees True (\<lambda>k. ''f2'') False ''2026-02'' 200 balance_db))) = 2"
    by (simp add: handleGenerateFees_def active_members_def month_start_def fees_to_insert_def
          fee_conflict_def balance_db_def empty_db_def sample_member_def Let_def)
  have b: "snd (handleGenerateFees True (\<lambda>k. ''f3'') False ''2026-02'' 200
          (snd (handleGenerateFees True (\<lambda>k. ''f2'') False ''2026-02'' 200 balance_db)))
     = snd (handleGenerateFees True (\<lambda>k. ''f2'') False ''2026-02'' 200 balance_db)"
    using fee_generation_idempotent[where d = balance_db and new_ids = "\<lambda>k. ''f2''"
        and selectedMonth = "''2026-02''" and feeAmount = 200 and confirmed' = True
        and new_ids' = "\<lambda>k. ''f3''" and rejected' = False and feeAmount' = 200]
    by (simp add: Let_def)
  from a b show ?thesis by simp
qed

text \<open>The members a run selects: both bounds are the first day of the month.\<close>

lemma active_members_iff:
  "m \<in> set (active_members selectedMonth ms) \<longleftrightarrow>
     m \<in> set ms \<and> m_join_date m \<le> selectedMonth @ ''-01''
     \<and> (m_leave_date m = None \<or> (\<exists>l. m_leave_date m = Some l \<and> selectedMonth @ ''-01'' \<le> l))"
  by (auto simp: active_members_def month_start_def split: option.splits)

text \<open>
  Claim C2.  The member filter compares \<open>join_date\<close> with the first day of the month,
  not with its last day.  A member who joined on 15 January 2026 and has not left has a
  join date no later than 31 January, yet generation for January 2026 selects nobody,
  reports that there are no active members and creates no fee row.
\<close>

theorem fee_generation_join_month:
  "m_join_date january_joiner \<le> ''2026-01-31'' \<and> m_leave_date january_joiner = None
   \<and> active_members ''2026-01'' [january_joiner] = []
   \<and> handleGenerateFees True new_ids False ''2026-01'' 200 (empty_db\<lparr> members := [january_joiner] \<rparr>)
       = (NoActiveMembers, empty_db\<lparr> members := [january_joiner] \<rparr>)"
  by (simp add: january_joiner_def handleGenerateFees_def active_members_def month_start_def
        empty_db_def Let_def)

section \<open>The sign of ledger entries\<close>

lemma to_transaction_direction:
  "bt_direction (to_transaction B file_name cm row) = ''in''
   \<or> bt_direction (to_transaction B file_name cm row) = ''out''"
  by (simp add: to_transaction_def Let_def)

lemma bank_import_postings:
  "postings (snd (BankImport_handleImport B file_name cm parsedData lookup_failed False d)) =
     postings d @
       map (\<lambda>t. (''bank_transaction'',
                   if bt_direction t = ''in'' then bt_amount t else js_neg (bt_amount t)))
         (new_transactions lookup_failed (bank_transactions d)
            (map (to_transaction B file_name cm) parsedData))"
  by (simp add: BankImport_handleImport_def Let_def postings_def bank_ledger_entry_def comp_def)

text \<open>
  Claim C1.  The amount of the posted ledger entry is fixed by the kind of event.
  Marking a reimbursement found in the page state as paid (a payment method was given and
  the store accepted the update) appends one \<open>reimbursement_payment\<close> entry with minus
  its amount; marking a fee as paid appends one \<open>membership_fee_payment\<close> entry with
  its amount; an accepted cash expense appends one \<open>cash_expense\<close> entry with minus
  its amount; an accepted sale created as paid appends one \<open>merch_sale\<close> entry with
  the order's total; and an accepted bank import appends, for each inserted row, one
  \<open>bank_transaction\<close> entry with the stored amount when the direction is \<open>in\<close>
  and minus the stored amount when it is \<open>out\<close>.
\<close>

theorem ledger_sign_by_event_kind:
  "(pm \<noteq> [] \<and> find (\<lambda>r. rb_id r = reimbursementId) reimbursements_state = Some reimb
      \<longrightarrow> postings (snd (Reimbursements_handleMarkPaid today (Some pm) False
              reimbursements_state reimbursementId d))
          = postings d @ [(''reimbursement_payment'', Fin (- rb_amount reimb))])
   \<and> (pm \<noteq> [] \<and> find (\<lambda>f. fee_id f = feeId) fees = Some fee
      \<longrightarrow> postings (snd (MembershipFees_handleMarkPaid today selectedMonth (Some pm) False
              fees feeId d))
          = postings d @ [(''membership_fee_payment'', Fin (fee_amount fee))])
   \<and> postings (snd (handleAddExpense new_id False formData d))
        = postings d @ [(''cash_expense'', Fin (- ef_amount formData))]
   \<and> (sf_items saleForm \<noteq> [] \<and> sf_payment_status saleForm = ''paid''
      \<longrightarrow> postings (snd (handleCreateSale new_id False False products_state saleForm d))
          = postings d @ [(''merch_sale'', Fin (sale_total (sf_items saleForm)))]
        \<and> map so_total_amount
             (sales_orders (snd (handleCreateSale new_id False False products_state saleForm d)))
          = map so_total_amount (sales_orders d) @ [sale_total (sf_items saleForm)])
   \<and> postings (snd (BankImport_handleImport B file_name cm parsedData lookup_failed False d)) =
       postings d @
         map (\<lambda>t. (''bank_transaction'',
                     if bt_direction t = ''in'' then bt_amount t else js_neg (bt_amount t)))
           (new_transactions lookup_failed (bank_transactions d)
              (map (to_transaction B file_name cm) parsedData))
   \<and> (bt_direction txn = ''in'' \<longrightarrow> le_amount (bank_ledger_entry txn) = bt_amount txn)
   \<and> (bt_direction txn = ''out'' \<longrightarrow> le_amount (bank_ledger_entry txn) = js_neg (bt_amount txn))"
proof (intro conjI impI)
  assume "pm \<noteq> [] \<and> find (\<lambda>r. rb_id r = reimbursementId) reimbursements_state = Some reimb"
  then show "postings (snd (Reimbursements_handleMarkPaid today (Some pm) False
              reimbursements_state reimbursementId d))
          = postings d @ [(''reimbursement_payment'', Fin (- rb_amount reimb))]"
    by (simp add: Reimbursements_handleMarkPaid_def postings_def Let_def)
next
  assume "pm \<noteq> [] \<and> find (\<lambda>f. fee_id f = feeId) fees = Some fee"
  then show "postings (snd (MembershipFees_handleMarkPaid today selectedMonth (Some pm) False
              fees feeId d))
          = postings d @ [(''membership_fee_payment'', Fin (fee_amount fee))]"
    by (simp add: MembershipFees_handleMarkPaid_def postings_def Let_def)
next
  show "postings (snd (handleAddExpense new_id False formData d))
        = postings d @ [(''cash_expense'', Fin (- ef_amount formData))]"
    by (simp add: handleAddExpense_def postings_def)
next
  assume "sf_items saleForm \<noteq> [] \<and> sf_payment_status saleForm = ''paid''"
  then show "postings (snd (handleCreateSale new_id False False products_state saleForm d))
          = postings d @ [(''merch_sale'', Fin (sale_total (sf_items saleForm)))]"
    by (simp add: handleCreateSale_def postings_def Let_def)
next
  assume "sf_items saleForm \<noteq> [] \<and> sf_payment_status saleForm = ''paid''"
  then show "map so_total_amount
             (sales_orders (snd (handleCreateSale new_id False False products_state saleForm d)))
          = map so_total_amount (sales_orders d) @ [sale_total (sf_items saleForm)]"
    by (simp add: handleCreateSale_def Let_def)
next
  show "postings (snd (BankImport_handleImport B file_name cm parsedData lookup_failed False d)) =
       postings d @
         map (\<lambda>t. (''bank_transaction'',
                     if bt_direction t = ''in'' then bt_amount t else js_neg (bt_amount t)))
           (new_transactions lookup_failed (bank_transactions d)
              (map (to_transaction B file_name cm) parsedData))"
    by (rule bank_import_postings)
next
  assume "bt_direction txn = ''in''"
  then show "le_amount (bank_ledger_entry txn) = bt_amount txn"
    by (simp add: bank_ledger_entry_def)
next
  assume "bt_direction txn = ''out''"
  then show "le_amount (bank_ledger_entry txn) = js_neg (bt_amount txn)"
    by (simp add: bank_ledger_entry_def)
qed

theorem ledger_sign_by_event_kind_witness:
  "postings (snd (Reimbursements_handleMarkPaid ''2026-02-01'' (Some ''bank'') False
       [sample_reimbursement] ''r1'' empty_db)) = [(''reimbursement_payment'', Fin (- 100))]
   \<and> postings (snd (MembershipFees_handleMarkPaid ''2026-02-01'' ''2026-01'' (Some ''cash'') False
       [sample_fee] ''f1'' empty_db)) = [(''membership_fee_payment'', Fin 200)]
   \<and> postings (snd (handleCreateSale ''o1'' False False sample_products sample_sale empty_db))
       = [(''merch_sale'', Fin 130)]
   \<and> (\<forall>B. le_amount (bank_ledger_entry
              (to_transaction B ''statement.xlsx'' sample_mapping sample_row)) = Fin (- 50))"
proof (intro conjI allI)
  have e: "postings empty_db = []" by (simp add: postings_def empty_db_def)
  show "postings (snd (Reimbursements_handleMarkPaid ''2026-02-01'' (Some ''bank'') False
       [sample_reimbursement] ''r1'' empty_db)) = [(''reimbursement_payment'', Fin (- 100))]"
    using ledger_sign_by_event_kind[where pm = "''bank''" and reimbursementId = "''r1''"
        and reimbursements_state = "[sample_reimbursement]" and reimb = sample_reimbursement
        and today = "''2026-02-01''" and d = empty_db]
    by (simp add: e sample_reimbursement_def)
  show "postings (snd (MembershipFees_handleMarkPaid ''2026-02-01'' ''2026-01'' (Some ''cash'') False
       [sample_fee] ''f1'' empty_db)) = [(''membership_fee_payment'', Fin 200)]"
    using ledger_sign_by_event_kind[where pm = "''cash''" and feeId = "''f1''"
        and fees = "[sample_fee]" and fee = sample_fee and today = "''2026-02-01''"
        and selectedMonth = "''2026-01''" and d = empty_db]
    by (simp add: e sample_fee_def)
  have t: "sale_total (sf_items sample_sale) = 130"
    by (simp add: sale_total_def sample_sale_def)
  show "postings (snd (handleCreateSale ''o1'' False False sample_products sample_sale empty_db))
       = [(''merch_sale'', Fin 130)]"
    using ledger_sign_by_event_kind[where saleForm = sample_sale and d = empty_db
        and new_id = "''o1''" and products_state = sample_products]
    by (simp add: e t) (simp add: sample_sale_def)
  fix B
  have o: "bt_direction (to_transaction B ''statement.xlsx'' sample_mapping sample_row) = ''out''"
    and a: "bt_amount (to_transaction B ''statement.xlsx'' sample_mapping sample_row) = Fin 50"
    by (simp_all add: sample_mapping_def sample_row_def to_transaction_def row_direction_def
        raw_amount_def or_else_def toLowerCase_def lower_char_def Let_def)
  show "le_amount (bank_ledger_entry
              (to_transaction B ''statement.xlsx'' sample_mapping sample_row)) = Fin (- 50)"
    using ledger_sign_by_event_kind[where txn = "to_transaction B ''statement.xlsx'' sample_mapping sample_row"]
    by (simp add: o a)
qed

section \<open>Sales\<close>

lemma sale_total_sum_list:
  "sale_total items = (\<Sum>item\<leftarrow>items. of_int (si_quantity item) * si_unit_price item)"
proof -
  have "foldl (\<lambda>sum item. sum + of_int (si_quantity item) * si_unit_price item) acc items
      = acc + (\<Sum>item\<leftarrow>items. of_int (si_quantity item) * si_unit_price item)" for acc :: rat
    by (induction items arbitrary: acc) (simp_all add: add.assoc)
  then show ?thesis by (simp add: sale_total_def)
qed

lemma order_items_line_totals:
  "map soi_line_total (order_items products_state order_id items)
     = map (\<lambda>item. of_int (si_quantity item) * si_unit_price item) items"
  by (simp add: order_items_def comp_def)

lemma sale_total_is_sum_of_line_totals:
  "sale_total items = sum_list (map soi_line_total (order_items products_state order_id items))"
  by (simp add: sale_total_sum_list order_items_line_totals)

text \<open>
  When no product is listed on two lines, every stored product that a line refers to
  ends with the stock of the page's copy minus that line's quantity, and the others keep
  their stock.
\<close>

lemma find_none_distinct:
  "si_product_id item \<notin> set (map si_product_id items)
     \<Longrightarrow> find (\<lambda>i. si_product_id i = si_product_id item) items = None"
  by (induction items) auto

lemma update_stock_lookup:
  assumes "distinct (map si_product_id items)"
  shows "map (\<lambda>p. (p_id p, p_stock_quantity p)) (update_stock st items tbl) =
     map (\<lambda>p. (p_id p,
            case find (\<lambda>i. si_product_id i = p_id p) items of
              None \<Rightarrow> p_stock_quantity p
            | Some i \<Rightarrow>
                (case find (\<lambda>q. p_id q = p_id p) st of
                   None \<Rightarrow> p_stock_quantity p
                 | Some q \<Rightarrow> p_stock_quantity q - si_quantity i))) tbl"
  using assms
proof (induction items arbitrary: tbl)
  case Nil
  show ?case by simp
next
  case (Cons item items)
  from Cons.prems have d: "distinct (map si_product_id items)"
    and n: "find (\<lambda>i. si_product_id i = si_product_id item) items = None"
    by (simp_all add: find_none_distinct)
  show ?case
  proof (cases "find (\<lambda>p. p_id p = si_product_id item) st")
    case None
    then show ?thesis
      using Cons.IH[OF d, of tbl] n by (auto split: option.splits)
  next
    case (Some q)
    let ?tbl = "map (\<lambda>p. if p_id p = si_product_id item
                       then p\<lparr> p_stock_quantity := p_stock_quantity q - si_quantity item \<rparr>
                       else p) tbl"
    have "update_stock st (item # items) tbl = update_stock st items ?tbl"
      using Some by simp
    then show ?thesis
      using Cons.IH[OF d, of ?tbl] n Some by (auto simp: comp_def split: option.splits)
  qed
qed

text \<open>
  Claim C3.  The total and the line totals are as claimed, but the stock is not when a
  sale lists the same product on two lines.  With a stock of 10, lines of quantity 2 and
  quantity 1 for that product give an order total of 130 and line totals 100 and 30,
  while the stock ends at 9: each update writes the stock of the page's copy of the
  product minus one line's quantity, so the second update overwrites the first and the
  stock falls by 1 instead of 3.
\<close>

theorem sale_repeated_product_stock:
  "(let d = empty_db\<lparr> products := sample_products \<rparr>;
        d1 = snd (handleCreateSale ''o1'' False False sample_products repeated_product_sale d)
    in map so_total_amount (sales_orders d1) = [130]
       \<and> map soi_line_total (sales_order_items d1) = [100, 30]
       \<and> map soi_quantity (sales_order_items d1) = [2, 1]
       \<and> map soi_product_id (sales_order_items d1) = [''p1'', ''p1'']
       \<and> map p_stock_quantity (products d) = [10, 5]
       \<and> map p_stock_quantity (products d1) = [9, 5])"
  by (simp add: handleCreateSale_def Let_def empty_db_def sample_products_def
        repeated_product_sale_def sale_total_def order_items_def)

section \<open>Member balances\<close>

text \<open>
  With arithmetic that does not round, a left fold from \<open>0\<close> is the sum of the list.
\<close>

lemma foldl_add_sum_list:
  "foldl (\<lambda>sum x. sum + f x) acc xs = acc + sum_list (map f xs)" for acc :: rat
  by (induction xs arbitrary: acc) (simp_all add: add.assoc)

lemma exact_fold_sum_list:
  "foldl (\<lambda>sum x. js_add exact_arith sum (f x)) 0 xs = sum_list (map f xs)"
  by (simp add: exact_arith_def foldl_add_sum_list)

text \<open>
  Claim C4.  The report has one line per member the select returned.  Its
  \<open>fees_owed\<close> is the sum of the amounts of that member's unpaid fees,
  \<open>sales_owed\<close> the sum of the totals of that member's unpaid sales orders,
  \<open>reimb_owed\<close> the sum of the amounts of that member's unpaid reimbursements, each
  sum taken over the rows its select returned, from \<open>0\<close>, in the order of the rows,
  with the addition of the source; and \<open>net_balance\<close> is fees plus sales, minus
  reimbursements, in that order.  For a member with one unpaid fee of 200 and one unpaid
  reimbursement of 50 the net balance is 150, given that the arithmetic is exact on these
  whole numbers (as that of doubles is).
\<close>

theorem member_balances:
  "loadMemberBalances A members_data fees_data sales_data reimbursements_data =
     map (\<lambda>member.
        \<lparr> member_name = m_full_name member,
          fees_owed = foldl (\<lambda>sum f. js_add A sum (fee_amount f)) 0
             (filter (\<lambda>f. fee_member_id f = m_id member \<and> fee_payment_status f = ''unpaid'')
                (rows_of fees_data)),
          sales_owed = foldl (\<lambda>sum s. js_add A sum (so_total_amount s)) 0
             (filter (\<lambda>s. so_member_id s = Some (m_id member)
                          \<and> so_payment_status s = ''unpaid'') (rows_of sales_data)),
          reimb_owed = foldl (\<lambda>sum r. js_add A sum (rb_amount r)) 0
             (filter (\<lambda>r. rb_member_id r = m_id member \<and> rb_payment_status r = ''unpaid'')
                (rows_of reimbursements_data)),
          net_balance =
            js_sub A
              (js_add A
                 (foldl (\<lambda>sum f. js_add A sum (fee_amount f)) 0
                    (filter (\<lambda>f. fee_member_id f = m_id member
                                 \<and> fee_payment_status f = ''unpaid'') (rows_of fees_data)))
                 (foldl (\<lambda>sum s. js_add A sum (so_total_amount s)) 0
                    (filter (\<lambda>s. so_member_id s = Some (m_id member)
                                 \<and> so_payment_status s = ''unpaid'') (rows_of sales_data))))
              (foldl (\<lambda>sum r. js_add A sum (rb_amount r)) 0
                 (filter (\<lambda>r. rb_member_id r = m_id member
                              \<and> rb_payment_status r = ''unpaid'')
                    (rows_of reimbursements_data))) \<rparr>)
       (rows_of members_data)
   \<and> (js_add A 0 200 = 200 \<and> js_add A 0 50 = 50 \<and> js_add A 200 0 = 200
        \<and> js_sub A 200 50 = 150
      \<longrightarrow> map net_balance
            (loadMemberBalances A (Some (members balance_db))
               (Some (membership_fees balance_db)) (Some (sales_orders balance_db))
               (Some (reimbursements balance_db))) = [150])"
proof (intro conjI impI)
  have f: "filter Q (case data of None \<Rightarrow> [] | Some rows \<Rightarrow> filter P rows)
      = filter (\<lambda>x. P x \<and> Q x) (rows_of data)"
    for P Q :: "'a \<Rightarrow> bool" and data
    by (cases data) (simp_all add: rows_of_def)
  show "loadMemberBalances A members_data fees_data sales_data reimbursements_data =
     map (\<lambda>member.
        \<lparr> member_name = m_full_name member,
          fees_owed = foldl (\<lambda>sum f. js_add A sum (fee_amount f)) 0
             (filter (\<lambda>f. fee_member_id f = m_id member \<and> fee_payment_status f = ''unpaid'')
                (rows_of fees_data)),
          sales_owed = foldl (\<lambda>sum s. js_add A sum (so_total_amount s)) 0
             (filter (\<lambda>s. so_member_id s = Some (m_id member)
                          \<and> so_payment_status s = ''unpaid'') (rows_of sales_data)),
          reimb_owed = foldl (\<lambda>sum r. js_add A sum (rb_amount r)) 0
             (filter (\<lambda>r. rb_member_id r = m_id member \<and> rb_payment_status r = ''unpaid'')
                (rows_of reimbursements_data)),
          net_balance =
            js_sub A
              (js_add A
                 (foldl (\<lambda>sum f. js_add A sum (fee_amount f)) 0
                    (filter (\<lambda>f. fee_member_id f = m_id member
                                 \<and> fee_payment_status f = ''unpaid'') (rows_of fees_data)))
                 (foldl (\<lambda>sum s. js_add A sum (so_total_amount s)) 0
                    (filter (\<lambda>s. so_member_id s = Some (m_id member)
                                 \<and> so_payment_status s = ''unpaid'') (rows_of sales_data))))
              (foldl (\<lambda>sum r. js_add A sum (rb_amount r)) 0
                 (filter (\<lambda>r. rb_member_id r = m_id member
                              \<and> rb_payment_status r = ''unpaid'')
                    (rows_of reimbursements_data))) \<rparr>)
       (rows_of members_data)"
  proof (cases members_data)
    case None
    then show ?thesis by (simp add: loadMemberBalances_def rows_of_def)
  next
    case (Some ms)
    then have r: "rows_of members_data = ms" by (simp add: rows_of_def)
    show ?thesis
      unfolding loadMemberBalances_def Let_def f r by (simp add: Some)
  qed
next
  assume h: "js_add A 0 200 = 200 \<and> js_add A 0 50 = 50 \<and> js_add A 200 0 = 200
        \<and> js_sub A 200 50 = 150"
  then show "map net_balance
            (loadMemberBalances A (Some (members balance_db))
               (Some (membership_fees balance_db)) (Some (sales_orders balance_db))
               (Some (reimbursements balance_db))) = [150]"
    by (simp add: loadMemberBalances_def balance_db_def empty_db_def sample_member_def Let_def)
qed

theorem member_balances_witness:
  "map net_balance
     (loadMemberBalances exact_arith (Some (members balance_db))
        (Some (membership_fees balance_db)) (Some (sales_orders balance_db))
        (Some (reimbursements balance_db))) = [150]
   \<and> loadMemberBalances exact_arith None (Some (membership_fees balance_db)) None None = []"
proof -
  have h: "js_add exact_arith 0 200 = 200 \<and> js_add exact_arith 0 50 = 50
      \<and> js_add exact_arith 200 0 = 200 \<and> js_sub exact_arith 200 50 = 150"
    by (simp add: exact_arith_def)
  from member_balances[where A = exact_arith] h
  have a: "map net_balance
     (loadMemberBalances exact_arith (Some (members balance_db))
        (Some (membership_fees balance_db)) (Some (sales_orders balance_db))
        (Some (reimbursements balance_db))) = [150]"
    by blast
  from member_balances[where A = exact_arith and members_data = None
      and fees_data = "Some (membership_fees balance_db)" and sales_data = None
      and reimbursements_data = None]
  have b: "loadMemberBalances exact_arith None (Some (membership_fees balance_db)) None None = []"
    by (simp add: rows_of_def)
  from a b show ?thesis by simp
qed

section \<open>Member import\<close>

lemma new_members_excludes:
  assumes "mi_full_name r = Some n" and "m \<in> set members_state"
    and "lower (m_full_name m) = lower n"
  shows "r \<notin> set (new_members lower members_state importData)"
proof -
  from assms(2) have "lower (m_full_name m) \<in> (\<lambda>m. lower (m_full_name m)) ` set members_state"
    by (rule imageI)
  with assms(3) have "lower n \<in> (\<lambda>m. lower (m_full_name m)) ` set members_state"
    by simp
  with assms(1) show ?thesis by (simp add: new_members_def Let_def)
qed

lemma new_members_names:
  assumes "r \<in> set (new_members lower members_state importData)" and "mi_full_name r = Some n"
    and "m \<in> set members_state"
  shows "lower n \<noteq> lower (m_full_name m)"
  using new_members_excludes[OF assms(2) assms(3), where importData = importData] assms(1)
  by metis

lemma enumerate_snd_mem: "(k, x) \<in> set (enumerate i xs) \<Longrightarrow> x \<in> set xs"
  by (metis in_set_enumerate_eq nth_mem diff_less_mono2 add_diff_cancel_left' le_add1 less_diff_conv2 snd_conv add.commute)

text \<open>
  Claim C9.  Whatever \<open>toLowerCase\<close> does to the characters of a name: a raw record
  whose name equals, after lower-casing both, the name of a member in the page state is
  not among the records to insert; the rows a run inserts all come from those records,
  and none of them has a name equal up to case to the name of such a member.  Since
  \<open>Jane Doe\<close> and \<open>jane doe\<close> have the same lower-case form, importing
  \<open>Jane Doe\<close> when \<open>jane doe\<close> exists inserts nothing and reports that there
  are no new members.
\<close>

theorem member_import_dedup:
  "(mi_full_name r = Some n \<and> m \<in> set members_state
       \<and> lower (m_full_name m) = lower n
     \<longrightarrow> r \<notin> set (new_members lower members_state importData))
   \<and> (let d1 = snd (Members_handleImport lower today new_ids rejected members_state importData d);
          inserted = drop (length (members d)) (members d1)
      in members d1 = members d @ inserted
         \<and> length inserted \<le> length (new_members lower members_state importData)
         \<and> (\<forall>row\<in>set inserted. \<forall>m\<in>set members_state.
               lower (m_full_name row) \<noteq> lower (m_full_name m)))
   \<and> (lower ''Jane Doe'' = lower ''jane doe''
      \<longrightarrow> Members_handleImport lower today new_ids rejected [sample_member] [jane_import] d
          = (NoNewMembers, d))"
proof (intro conjI impI)
  assume "mi_full_name r = Some n \<and> m \<in> set members_state
       \<and> lower (m_full_name m) = lower n"
  then show "r \<notin> set (new_members lower members_state importData)"
    using new_members_excludes by blast
next
  let ?new = "new_members lower members_state importData"
  let ?rows = "map (\<lambda>(k, m). member_row today (new_ids k) m) (enumerate 0 ?new)"
  have rows: "lower (m_full_name row) \<noteq> lower (m_full_name m)"
    if "row \<in> set ?rows" "m \<in> set members_state" "\<not> list_ex (\<lambda>m. mi_full_name m = None) ?new"
    for row m
  proof -
    from that(1) obtain k r where kr: "(k, r) \<in> set (enumerate 0 ?new)"
      and row: "row = member_row today (new_ids k) r" by auto
    from kr have r: "r \<in> set ?new" by (rule enumerate_snd_mem)
    with that(3) obtain n where n: "mi_full_name r = Some n"
      by (auto simp: list_ex_iff)
    from new_members_names[OF r n that(2)] show ?thesis
      by (simp add: row member_row_def n)
  qed
  show "let d1 = snd (Members_handleImport lower today new_ids rejected members_state importData d);
          inserted = drop (length (members d)) (members d1)
      in members d1 = members d @ inserted
         \<and> length inserted \<le> length (new_members lower members_state importData)
         \<and> (\<forall>row\<in>set inserted. \<forall>m\<in>set members_state.
               lower (m_full_name row) \<noteq> lower (m_full_name m))"
    using rows by (simp add: Members_handleImport_def Let_def)
next
  assume "lower ''Jane Doe'' = lower ''jane doe''"
  then have "new_members lower [sample_member] [jane_import] = []"
    by (simp add: new_members_def sample_member_def jane_import_def Let_def)
  then show "Members_handleImport lower today new_ids rejected [sample_member] [jane_import] d
       = (NoNewMembers, d)"
    by (simp add: Members_handleImport_def Let_def)
qed

theorem member_import_dedup_witness:
  "jane_import \<notin> set (new_members toLowerCase [sample_member] [jane_import])
   \<and> members (snd (Members_handleImport toLowerCase ''2026-02-01'' (\<lambda>k. ''id'') False
        [sample_member] [jane_import] (empty_db\<lparr> members := [sample_member] \<rparr>)))
     = [sample_member]"
proof -
  have l: "toLowerCase ''Jane Doe'' = toLowerCase ''jane doe''"
    by (simp add: toLowerCase_def lower_char_def)
  have s: "m_full_name sample_member = ''jane doe''" by (simp add: sample_member_def)
  have n: "mi_full_name jane_import = Some ''Jane Doe''" by (simp add: jane_import_def)
  note t = member_import_dedup[where lower = toLowerCase and r = jane_import
      and n = "''Jane Doe''" and m = sample_member
      and members_state = "[sample_member]" and importData = "[jane_import]"
      and today = "''2026-02-01''" and new_ids = "\<lambda>k. ''id''" and rejected = False
      and d = "empty_db\<lparr> members := [sample_member] \<rparr>"]
  from t l n s have a: "jane_import \<notin> set (new_members toLowerCase [sample_member] [jane_import])"
    by simp
  from t l have "Members_handleImport toLowerCase ''2026-02-01'' (\<lambda>k. ''id'') False
        [sample_member] [jane_import] (empty_db\<lparr> members := [sample_member] \<rparr>)
      = (NoNewMembers, empty_db\<lparr> members := [sample_member] \<rparr>)" by blast
  then have b: "members (snd (Members_handleImport toLowerCase ''2026-02-01'' (\<lambda>k. ''id'') False
        [sample_member] [jane_import] (empty_db\<lparr> members := [sample_member] \<rparr>)))
     = [sample_member]"
    by simp
  from a b show ?thesis by simp
qed

end
